theory Spec2Isabelle
  imports Main
begin

section \<open>The payload types of the network client\<close>

text \<open>
  The handlers exchange values of the Azure network SDK with the remote API. A Go pointer
  field is an \<open>option\<close> (\<open>None\<close> is \<open>nil\<close>), a pointer to a slice an optional list.
  Only the fields the two resources modelled here read or write are kept, plus
  a name and an etag, so that an entry kept as it was can be told from one built anew.
\<close>

record SubResource =
  SR_ID :: "string option"

record BackendAddressPool =
  BAP_ID :: "string option"
  BAP_Name :: "string option"
  BAP_Etag :: "string option"

record InterfaceIPConfigurationPropertiesFormat =
  LoadBalancerBackendAddressPools :: "BackendAddressPool list option"
  PrivateIPAddress :: "string option"
  PrivateIPAllocationMethod :: string
  PrivateIPAddressVersion :: string
  Subnet :: "SubResource option"
  Primary :: "bool option"
  PublicIPAddress :: "SubResource option"

record InterfaceIPConfiguration =
  IPC_Properties :: "InterfaceIPConfigurationPropertiesFormat option"
  IPC_Name :: "string option"
  IPC_Etag :: "string option"
  IPC_ID :: "string option"

record InterfaceDNSSettings =
  DNSServers :: "string list option"
  AppliedDNSServers :: "string list option"
  InternalDomainNameSuffix :: "string option"

record InterfacePropertiesFormat =
  VirtualMachine :: "SubResource option"
  NetworkSecurityGroup :: "SubResource option"
  IPConfigurations :: "InterfaceIPConfiguration list option"
  DNSSettings :: "InterfaceDNSSettings option"
  MacAddress :: "string option"
  EnableIPForwarding :: "bool option"

record Interface =
  IF_Properties :: "InterfacePropertiesFormat option"
  IF_ID :: "string option"
  IF_Name :: "string option"
  IF_Location :: "string option"
  IF_Tags :: "(string \<times> string) list option"

section \<open>Errors\<close>

text \<open>
  Every \<open>return fmt.Errorf(...)\<close> of the two resource files is one constructor; a Go
  run-time panic (nil dereference, index out of range, failed type assertion) is
  \<open>Panic\<close>. A handler returns \<open>error option\<close>: \<open>None\<close> is Go's \<open>nil\<close> error.
\<close>

datatype error =
    Panic
  | ErrParse
  | ErrBadIdFormat
  | ErrWasNotFound
  | ErrRetrieving
  | ErrPropertiesNil
  | ErrIPConfigurationsNil
  | ErrIPConfigurationNotFound
  | ErrIPConfigurationPropertiesNil
  | ErrImportAsExists string string
  | ErrCheckingPresence
  | ErrSubnetRequired
  | ErrPrimaryRequired
  | ErrExpanding error
  | ErrLockingDetails
  | ErrWriting
  | ErrWaiting
  | ErrDeleting

section \<open>Expanding and flattening the DNS servers and the IP configurations\<close>

text \<open>
  The plugin SDK hands configuration values over as \<open>interface{}\<close>; the code asserts
  their Go type (\<open>v.(string)\<close>), which panics on any other value.
\<close>

datatype go_value = VString string | VBool bool | VNil

definition assertString :: "go_value \<Rightarrow> error + string" where
  "assertString v = (case v of VString s \<Rightarrow> Inr s | _ \<Rightarrow> Inl Panic)"

definition assertBool :: "go_value \<Rightarrow> error + bool" where
  "assertBool v = (case v of VBool b \<Rightarrow> Inr b | _ \<Rightarrow> Inl Panic)"

text \<open>\<open>expandNetworkInterfaceDnsServers\<close>: the loop appends each asserted string.\<close>

fun expandDnsLoop :: "go_value list \<Rightarrow> string list \<Rightarrow> error + string list" where
  "expandDnsLoop [] dnsServers = Inr dnsServers"
| "expandDnsLoop (v # rest) dnsServers =
     (case assertString v of
        Inl e \<Rightarrow> Inl e
      | Inr s \<Rightarrow> expandDnsLoop rest (dnsServers @ [s]))"

definition expandNetworkInterfaceDnsServers :: "go_value list \<Rightarrow> error + string list" where
  "expandNetworkInterfaceDnsServers input = expandDnsLoop input []"

definition flattenNetworkInterfaceDnsServers :: "string list option \<Rightarrow> string list" where
  "flattenNetworkInterfaceDnsServers input =
     (case input of None \<Rightarrow> [] | Some xs \<Rightarrow> xs)"

text \<open>
  One \<open>ip_configuration\<close> block arrives as a \<open>map[string]interface{}\<close>. A missing key
  reads as the nil interface value, on which a type assertion panics.
\<close>

type_synonym raw_config = "string \<Rightarrow> go_value option"

definition rawGet :: "raw_config \<Rightarrow> string \<Rightarrow> go_value" where
  "rawGet data k = (case data k of None \<Rightarrow> VNil | Some v \<Rightarrow> v)"

text \<open>The SDK constant \<open>network.IPv4\<close>.\<close>

definition IPv4 :: string where
  "IPv4 = ''IPv4''"

text \<open>
  The body of the loop of \<open>expandNetworkInterfaceIPConfigurations\<close> for one block:
  the error for an IPv4 block without a subnet, else the configuration built from it.
\<close>

definition expandOne :: "raw_config \<Rightarrow> error + InterfaceIPConfiguration" where
  "expandOne data =
     (case assertString (rawGet data ''subnet_id'') of Inl e \<Rightarrow> Inl e | Inr subnetId \<Rightarrow>
      case assertString (rawGet data ''private_ip_address_allocation'') of Inl e \<Rightarrow> Inl e
      | Inr privateIpAllocationMethod \<Rightarrow>
      case assertString (rawGet data ''private_ip_address_version'') of Inl e \<Rightarrow> Inl e
      | Inr privateIpAddressVersion \<Rightarrow>
      if privateIpAddressVersion = IPv4 \<and> subnetId = '''' then Inl ErrSubnetRequired
      else
      case assertString (rawGet data ''private_ip_address'') of Inl e \<Rightarrow> Inl e | Inr v1 \<Rightarrow>
      case assertString (rawGet data ''public_ip_address_id'') of Inl e \<Rightarrow> Inl e | Inr v2 \<Rightarrow>
      case (case data ''primary'' of None \<Rightarrow> Inr None
            | Some v \<Rightarrow> (case assertBool v of Inl e \<Rightarrow> Inl e | Inr b \<Rightarrow> Inr (Some b))) of
        Inl e \<Rightarrow> Inl e
      | Inr primary \<Rightarrow>
      case assertString (rawGet data ''name'') of Inl e \<Rightarrow> Inl e | Inr name \<Rightarrow>
      Inr \<lparr> IPC_Properties = Some
              \<lparr> LoadBalancerBackendAddressPools = None,
                PrivateIPAddress = (if v1 \<noteq> '''' then Some v1 else None),
                PrivateIPAllocationMethod = privateIpAllocationMethod,
                PrivateIPAddressVersion = privateIpAddressVersion,
                Subnet = (if subnetId \<noteq> '''' then Some \<lparr> SR_ID = Some subnetId \<rparr> else None),
                Primary = primary,
                PublicIPAddress = (if v2 \<noteq> '''' then Some \<lparr> SR_ID = Some v2 \<rparr> else None) \<rparr>,
            IPC_Name = Some name,
            IPC_Etag = None,
            IPC_ID = None \<rparr>)"

fun expandLoop ::
  "raw_config list \<Rightarrow> InterfaceIPConfiguration list \<Rightarrow> error + InterfaceIPConfiguration list"
where
  "expandLoop [] ipConfigs = Inr ipConfigs"
| "expandLoop (configRaw # rest) ipConfigs =
     (case expandOne configRaw of
        Inl e \<Rightarrow> Inl e
      | Inr c \<Rightarrow> expandLoop rest (ipConfigs @ [c]))"

text \<open>
  The second loop: \<open>config.Primary\<close> reads through the embedded properties pointer, so
  a configuration without properties would panic.
\<close>

fun hasPrimaryLoop :: "InterfaceIPConfiguration list \<Rightarrow> error + bool" where
  "hasPrimaryLoop [] = Inr False"
| "hasPrimaryLoop (config # rest) =
     (case IPC_Properties config of
        None \<Rightarrow> Inl Panic
      | Some p \<Rightarrow> if Primary p = Some True then Inr True else hasPrimaryLoop rest)"

definition expandNetworkInterfaceIPConfigurations ::
  "raw_config list \<Rightarrow> error + InterfaceIPConfiguration list"
where
  "expandNetworkInterfaceIPConfigurations input =
     (case expandLoop input [] of
        Inl e \<Rightarrow> Inl e
      | Inr ipConfigs \<Rightarrow>
          if length ipConfigs > 1 then
            (case hasPrimaryLoop ipConfigs of
               Inl e \<Rightarrow> Inl e
             | Inr hasPrimary \<Rightarrow>
                 if \<not> hasPrimary then Inl ErrPrimaryRequired else Inr ipConfigs)
          else Inr ipConfigs)"

text \<open>
  A block as the schema of \<open>ip_configuration\<close> types it: six strings and the optional
  boolean \<open>primary\<close>; \<open>rawOf\<close> is the map the plugin SDK builds from it.
\<close>

record ip_configuration_block =
  blk_name :: string
  blk_subnet_id :: string
  blk_private_ip_address :: string
  blk_private_ip_address_version :: string
  blk_private_ip_address_allocation :: string
  blk_public_ip_address_id :: string
  blk_primary :: "bool option"

definition rawOf :: "ip_configuration_block \<Rightarrow> raw_config" where
  "rawOf b k =
     (if k = ''name'' then Some (VString (blk_name b))
      else if k = ''subnet_id'' then Some (VString (blk_subnet_id b))
      else if k = ''private_ip_address'' then Some (VString (blk_private_ip_address b))
      else if k = ''private_ip_address_version''
        then Some (VString (blk_private_ip_address_version b))
      else if k = ''private_ip_address_allocation''
        then Some (VString (blk_private_ip_address_allocation b))
      else if k = ''public_ip_address_id'' then Some (VString (blk_public_ip_address_id b))
      else if k = ''primary'' then map_option VBool (blk_primary b)
      else None)"


text \<open>
  The two values the loop body can produce for a typed block: whether the subnet check
  rejects it, and the configuration it builds otherwise.
\<close>

definition blockNeedsSubnet :: "ip_configuration_block \<Rightarrow> bool" where
  "blockNeedsSubnet b = (blk_private_ip_address_version b = IPv4 \<and> blk_subnet_id b = '''')"

definition configOfBlock :: "ip_configuration_block \<Rightarrow> InterfaceIPConfiguration" where
  "configOfBlock b =
     \<lparr> IPC_Properties = Some
         \<lparr> LoadBalancerBackendAddressPools = None,
           PrivateIPAddress =
             (if blk_private_ip_address b \<noteq> '''' then Some (blk_private_ip_address b) else None),
           PrivateIPAllocationMethod = blk_private_ip_address_allocation b,
           PrivateIPAddressVersion = blk_private_ip_address_version b,
           Subnet =
             (if blk_subnet_id b \<noteq> '''' then Some \<lparr> SR_ID = Some (blk_subnet_id b) \<rparr> else None),
           Primary = blk_primary b,
           PublicIPAddress =
             (if blk_public_ip_address_id b \<noteq> ''''
              then Some \<lparr> SR_ID = Some (blk_public_ip_address_id b) \<rparr> else None) \<rparr>,
       IPC_Name = Some (blk_name b),
       IPC_Etag = None,
       IPC_ID = None \<rparr>"

text \<open>Two blocks on one subnet, the first designated primary.\<close>

definition exampleBlocks :: "ip_configuration_block list" where
  "exampleBlocks =
     [ \<lparr> blk_name = ''internal'', blk_subnet_id = ''/subnets/a'',
         blk_private_ip_address = '''', blk_private_ip_address_version = ''IPv4'',
         blk_private_ip_address_allocation = ''Dynamic'', blk_public_ip_address_id = '''',
         blk_primary = Some True \<rparr>,
       \<lparr> blk_name = ''second'', blk_subnet_id = ''/subnets/a'',
         blk_private_ip_address = ''10.0.0.5'', blk_private_ip_address_version = ''IPv4'',
         blk_private_ip_address_allocation = ''Static'', blk_public_ip_address_id = ''/pip/1'',
         blk_primary = Some False \<rparr> ]"

section \<open>Identifiers, remote calls and the helpers defined elsewhere\<close>

text \<open>
  \<open>strings.Split(s, "|")\<close> of the Go standard library, for a one-character separator:
  the pieces between the separators, one more than there are separators.
\<close>

fun Split :: "string \<Rightarrow> char \<Rightarrow> string list" where
  "Split [] sep = [[]]"
| "Split (c # cs) sep =
     (if c = sep then [] # Split cs sep
      else (case Split cs sep of
              [] \<Rightarrow> [[c]]
            | piece # pieces \<Rightarrow> (c # piece) # pieces))"

text \<open>Indexing a Go slice: out of range is a run-time panic.\<close>

definition index :: "'a list \<Rightarrow> nat \<Rightarrow> error + 'a" where
  "index xs i = (if i < length xs then Inr (xs ! i) else Inl Panic)"

record NetworkInterfaceId =
  NI_SubscriptionId :: string
  NI_ResourceGroup :: string
  NI_Name :: string

record NetworkInterfaceIpConfigurationId =
  NIC_SubscriptionId :: string
  NIC_ResourceGroup :: string
  NIC_NetworkInterfaceName :: string
  NIC_IpConfigurationName :: string

text \<open>
  The value \<open>determineResourcesToLockFromIPConfiguration\<close> returns; the handlers only
  call its \<open>lock\<close> and \<open>unlock\<close> methods, so it is kept as the list of names it holds.
\<close>

datatype lockingDetails = LockingDetails "string list"

text \<open>
  Functions and constants of the provider that the two resource files call but do not
  define (the ID parsers of the \<open>parse\<close> packages, the ID formatter, the resource-type
  name used as lock key, the locking and carry-over helpers of the network package, the
  tag and location helpers) are parameters of the model. \<open>'i\<close> is the type of the
  information \<open>parseFieldsFromNetworkInterface\<close> extracts. A parser returns \<open>None\<close>
  where the Go function returns an error.
\<close>

record 'i deps =
  parse_NetworkInterfaceID :: "string \<Rightarrow> NetworkInterfaceId option"
  parse_NetworkInterfaceIpConfigurationID :: "string \<Rightarrow> NetworkInterfaceIpConfigurationId option"
  parse_LoadBalancerBackendAddressPoolID :: "string \<Rightarrow> bool"
  NetworkInterfaceId_ID :: "NetworkInterfaceId \<Rightarrow> string"
  networkInterfaceResourceName :: string
  determineResourcesToLockFromIPConfiguration ::
    "InterfaceIPConfiguration list option \<Rightarrow> lockingDetails option"
  parseFieldsFromNetworkInterface :: "InterfacePropertiesFormat \<Rightarrow> 'i"
  mapFieldsToNetworkInterface ::
    "InterfaceIPConfiguration list \<Rightarrow> 'i \<Rightarrow> InterfaceIPConfiguration list"
  tags_Expand :: "(string \<times> string) list \<Rightarrow> (string \<times> string) list option"
  tags_FlattenAndSet :: "(string \<times> string) list option \<Rightarrow> error option"
  location_Normalize :: "string \<Rightarrow> string"
  location_NormalizeNilable :: "string option \<Rightarrow> string"

text \<open>
  What a handler does to the outside world, in the order it does it: taking and
  releasing the per-name lock, the locks of \<open>lockingDetails\<close>, and the calls of the
  interfaces client with their arguments.
\<close>

datatype event =
    LockByName string string
  | UnlockByName string string
  | LockDetails lockingDetails
  | UnlockDetails lockingDetails
  | ClientGet string string
  | ClientCreateOrUpdate string string Interface
  | ClientDelete string string
  | WaitForCompletion

text \<open>
  A lock taken and its release deferred: the release is the last thing that happens
  when the rest of the handler returns, with an error or without, or panics.
\<close>

definition withLock ::
  "event \<Rightarrow> event \<Rightarrow> event list \<times> 'd \<times> error option
     \<Rightarrow> event list \<times> 'd \<times> error option"
where
  "withLock acquire release rest =
     (case rest of (ev, d, err) \<Rightarrow> ([acquire] @ ev @ [release], d, err))"

text \<open>Events that happened before the rest of a handler ran.\<close>

definition precededBy ::
  "event list \<Rightarrow> event list \<times> 'd \<times> error option \<Rightarrow> event list \<times> 'd \<times> error option"
where
  "precededBy ev0 rest = (case rest of (ev, d, err) \<Rightarrow> (ev0 @ ev, d, err))"

text \<open>
  The answer of \<open>client.Get\<close>: whether \<open>err\<close> is non-nil, whether
  \<open>utils.ResponseWasNotFound\<close> holds of the response, and the decoded interface. The
  handlers test the first two independently, so all four combinations are kept.
\<close>

record get_response =
  gr_err :: bool
  gr_notFound :: bool
  gr_iface :: Interface

text \<open>
  Modelled from the spec: \<open>FindNetworkInterfaceIPConfiguration\<close>, whose source is not
  part of these files. It returns the IP configuration of the list with the requested
  name, \<open>nil\<close> when the list is \<open>nil\<close> or holds none; the first one where several carry
  the name.
\<close>

definition FindNetworkInterfaceIPConfiguration ::
  "InterfaceIPConfiguration list option \<Rightarrow> string \<Rightarrow> InterfaceIPConfiguration option"
where
  "FindNetworkInterfaceIPConfiguration input name =
     (case input of
        None \<Rightarrow> None
      | Some configs \<Rightarrow> find (\<lambda>v. IPC_Name v = Some name) configs)"

text \<open>
  Modelled from the spec: \<open>updateNetworkInterfaceIPConfiguration\<close>, whose source is not
  part of these files. It merges the changed configuration into the list: it takes the
  place of the entry that carries its name (the first one, which is the one
  \<open>FindNetworkInterfaceIPConfiguration\<close> returns for that name); every other entry stays
  as it is and where it is.
\<close>

fun replaceNamed ::
  "InterfaceIPConfiguration \<Rightarrow> InterfaceIPConfiguration list \<Rightarrow> InterfaceIPConfiguration list"
where
  "replaceNamed config [] = []"
| "replaceNamed config (v # vs) =
     (if IPC_Name v = IPC_Name config then config # vs else v # replaceNamed config vs)"

definition updateNetworkInterfaceIPConfiguration ::
  "InterfaceIPConfiguration \<Rightarrow> InterfaceIPConfiguration list option
     \<Rightarrow> InterfaceIPConfiguration list option"
where
  "updateNetworkInterfaceIPConfiguration config configs =
     (case configs of
        None \<Rightarrow> Some []
      | Some vs \<Rightarrow> Some (replaceNamed config vs))"

section \<open>The backend address pool association resource\<close>

text \<open>The resource data \<open>d\<close> of an association: its ID and its three arguments.\<close>

record association_data =
  ad_Id :: string
  ad_network_interface_id :: string
  ad_ip_configuration_name :: string
  ad_backend_address_pool_id :: string

text \<open>
  The importer's validation function: it splits the ID and reads elements 0 and 1 of
  the result without looking at its length.
\<close>

definition associationImporter :: "'i deps \<Rightarrow> string \<Rightarrow> error option" where
  "associationImporter deps ident =
     (let splitId = Split ident CHR ''|'' in
      case index splitId 0 of
        Inl e \<Rightarrow> Some e
      | Inr s0 \<Rightarrow>
          (case parse_NetworkInterfaceIpConfigurationID deps s0 of
             None \<Rightarrow> Some ErrParse
           | Some _ \<Rightarrow>
               (case index splitId 1 of
                  Inl e \<Rightarrow> Some e
                | Inr s1 \<Rightarrow>
                    if \<not> parse_LoadBalancerBackendAddressPoolID deps s1 then Some ErrParse
                    else None)))"

text \<open>
  The loop of the create handler over the existing pools: an entry without ID is
  skipped, an entry with the requested ID ends the handler with the import error, any
  other entry is appended.
\<close>

fun createPoolsLoop ::
  "BackendAddressPool list \<Rightarrow> string \<Rightarrow> string \<Rightarrow> BackendAddressPool list
     \<Rightarrow> error + BackendAddressPool list"
where
  "createPoolsLoop [] backendAddressPoolId resourceId pools = Inr pools"
| "createPoolsLoop (existingPool # rest) backendAddressPoolId resourceId pools =
     (case BAP_ID existingPool of
        None \<Rightarrow> createPoolsLoop rest backendAddressPoolId resourceId pools
      | Some ident \<Rightarrow>
          if ident = backendAddressPoolId
          then Inl (ErrImportAsExists
                 ''azurerm_network_interface_backend_address_pool_association'' resourceId)
          else createPoolsLoop rest backendAddressPoolId resourceId (pools @ [existingPool]))"

text \<open>The loop of the read handler: is the pool among the entries that have an ID?\<close>

fun readPoolsLoop :: "BackendAddressPool list \<Rightarrow> string \<Rightarrow> bool" where
  "readPoolsLoop [] backendAddressPoolId = False"
| "readPoolsLoop (pool # rest) backendAddressPoolId =
     (case BAP_ID pool of
        None \<Rightarrow> readPoolsLoop rest backendAddressPoolId
      | Some ident \<Rightarrow>
          if ident = backendAddressPoolId then True
          else readPoolsLoop rest backendAddressPoolId)"

text \<open>The loop of the delete handler: entries with an ID other than the pool's are kept.\<close>

fun deletePoolsLoop ::
  "BackendAddressPool list \<Rightarrow> string \<Rightarrow> BackendAddressPool list \<Rightarrow> BackendAddressPool list"
where
  "deletePoolsLoop [] backendAddressPoolId backendAddressPools = backendAddressPools"
| "deletePoolsLoop (pool # rest) backendAddressPoolId backendAddressPools =
     (case BAP_ID pool of
        None \<Rightarrow> deletePoolsLoop rest backendAddressPoolId backendAddressPools
      | Some ident \<Rightarrow>
          if ident \<noteq> backendAddressPoolId
          then deletePoolsLoop rest backendAddressPoolId (backendAddressPools @ [pool])
          else deletePoolsLoop rest backendAddressPoolId backendAddressPools)"

text \<open>
  \<open>loadBalancerBackendAddressPoolAssociationRead\<close>. A handler returns the events it
  caused, the resource data as it leaves them, and its error.
\<close>

definition loadBalancerBackendAddressPoolAssociationRead ::
  "'i deps \<Rightarrow> association_data \<Rightarrow> get_response
     \<Rightarrow> event list \<times> association_data \<times> error option"
where
  "loadBalancerBackendAddressPoolAssociationRead deps d resp =
     (let splitId = Split (ad_Id d) CHR ''|'' in
      if length splitId \<noteq> 2 then ([], d, Some ErrBadIdFormat)
      else
        (case parse_NetworkInterfaceIpConfigurationID deps (splitId ! 0) of
           None \<Rightarrow> ([], d, Some ErrParse)
         | Some nicID \<Rightarrow>
             (let backendAddressPoolId = splitId ! 1;
                  ev = [ClientGet (NIC_ResourceGroup nicID) (NIC_NetworkInterfaceName nicID)];
                  read = gr_iface resp
              in
              if gr_err resp then
                (if gr_notFound resp then (ev, d\<lparr>ad_Id := []\<rparr>, None)
                 else (ev, d, Some ErrRetrieving))
              else
                (case IF_Properties read of
                   None \<Rightarrow> (ev, d, Some ErrPropertiesNil)
                 | Some nicProps \<Rightarrow>
                     (case IPConfigurations nicProps of
                        None \<Rightarrow> (ev, d, Some ErrIPConfigurationsNil)
                      | Some ipConfigs \<Rightarrow>
                          (case FindNetworkInterfaceIPConfiguration (IPConfigurations nicProps)
                                  (NIC_IpConfigurationName nicID) of
                             None \<Rightarrow> (ev, d\<lparr>ad_Id := []\<rparr>, None)
                           | Some config \<Rightarrow>
                               (let found =
                                  (case IPC_Properties config of
                                     None \<Rightarrow> False
                                   | Some props \<Rightarrow>
                                       (case LoadBalancerBackendAddressPools props of
                                          None \<Rightarrow> False
                                        | Some backendPools \<Rightarrow>
                                            readPoolsLoop backendPools backendAddressPoolId))
                                in
                                if \<not> found then (ev, d\<lparr>ad_Id := []\<rparr>, None)
                                else
                                  (ev,
                                   d\<lparr>ad_backend_address_pool_id := backendAddressPoolId,
                                     ad_ip_configuration_name := NIC_IpConfigurationName nicID,
                                     ad_network_interface_id :=
                                       (case IF_ID read of None \<Rightarrow> [] | Some s \<Rightarrow> s)\<rparr>,
                                   None))))))))"

text \<open>
  \<open>loadBalancerBackendAddressPoolAssociationCreateUpdate\<close>, from the point where the
  lock is held. \<open>resp\<close> is the answer to its \<open>client.Get\<close>, \<open>writeErr\<close> and \<open>waitErr\<close>
  say whether \<open>CreateOrUpdate\<close> and the wait for its completion fail, \<open>readResp\<close> is the
  answer to the \<open>Get\<close> of the read handler it ends with.

  The interface comes freshly decoded from the response, so no two of its pointers
  alias. \<open>config\<close> is a copy of the found entry that shares its properties pointer, so
  the assignment through \<open>p\<close> shows in \<open>config\<close> and in that entry;
  \<open>updateNetworkInterfaceIPConfiguration\<close> then puts \<open>config\<close> in that entry's place.
\<close>

definition associationCreateUpdateLocked ::
  "'i deps \<Rightarrow> association_data \<Rightarrow> NetworkInterfaceId \<Rightarrow> get_response \<Rightarrow> bool \<Rightarrow> bool
     \<Rightarrow> get_response \<Rightarrow> event list \<times> association_data \<times> error option"
where
  "associationCreateUpdateLocked deps d ident resp writeErr waitErr readResp =
     (let networkInterfaceId = ad_network_interface_id d;
          ipConfigurationName = ad_ip_configuration_name d;
          backendAddressPoolId = ad_backend_address_pool_id d;
          ev = [ClientGet (NI_ResourceGroup ident) (NI_Name ident)];
          read = gr_iface resp
      in
      if gr_err resp then
        (if gr_notFound resp then (ev, d, Some ErrWasNotFound)
         else (ev, d, Some ErrRetrieving))
      else
        (case IF_Properties read of
           None \<Rightarrow> (ev, d, Some ErrPropertiesNil)
         | Some props \<Rightarrow>
        (case IPConfigurations props of
           None \<Rightarrow> (ev, d, Some ErrIPConfigurationsNil)
         | Some ipConfigs \<Rightarrow>
        (case FindNetworkInterfaceIPConfiguration (IPConfigurations props) ipConfigurationName of
           None \<Rightarrow> (ev, d, Some ErrIPConfigurationNotFound)
         | Some config \<Rightarrow>
        (case IPC_Properties config of
           None \<Rightarrow> (ev, d, Some ErrIPConfigurationPropertiesNil)
         | Some p \<Rightarrow>
        (let resourceId =
               networkInterfaceId @ ''/ipConfigurations/'' @ ipConfigurationName @ ''|''
                 @ backendAddressPoolId
         in
         case (case LoadBalancerBackendAddressPools p of
                 None \<Rightarrow> Inr []
               | Some existing \<Rightarrow> createPoolsLoop existing backendAddressPoolId resourceId [])
         of
           Inl e \<Rightarrow> (ev, d, Some e)
         | Inr kept \<Rightarrow>
             (let pool = \<lparr> BAP_ID = Some backendAddressPoolId, BAP_Name = None,
                           BAP_Etag = None \<rparr>;
                  pools = kept @ [pool];
                  config' = config\<lparr>IPC_Properties :=
                              Some (p\<lparr>LoadBalancerBackendAddressPools := Some pools\<rparr>)\<rparr>;
                  read' = read\<lparr>IF_Properties :=
                            Some (props\<lparr>IPConfigurations :=
                              updateNetworkInterfaceIPConfiguration config'
                                (IPConfigurations props)\<rparr>)\<rparr>;
                  ev2 = ev @ [ClientCreateOrUpdate (NI_ResourceGroup ident) (NI_Name ident) read']
              in
              if writeErr then (ev2, d, Some ErrWriting)
              else if waitErr then (ev2 @ [WaitForCompletion], d, Some ErrWaiting)
              else
                precededBy (ev2 @ [WaitForCompletion])
                  (loadBalancerBackendAddressPoolAssociationRead deps
                     (d\<lparr>ad_Id := resourceId\<rparr>) readResp))))))))"

text \<open>
  The handler itself: the ID of the interface is parsed, the lock on its name is taken,
  and the deferred unlock runs when the rest returns, whatever it returns.
\<close>

definition loadBalancerBackendAddressPoolAssociationCreateUpdate ::
  "'i deps \<Rightarrow> association_data \<Rightarrow> get_response \<Rightarrow> bool \<Rightarrow> bool \<Rightarrow> get_response
     \<Rightarrow> event list \<times> association_data \<times> error option"
where
  "loadBalancerBackendAddressPoolAssociationCreateUpdate deps d resp writeErr waitErr readResp =
     (case parse_NetworkInterfaceID deps (ad_network_interface_id d) of
        None \<Rightarrow> ([], d, Some ErrParse)
      | Some ident \<Rightarrow>
          withLock (LockByName (NI_Name ident) (networkInterfaceResourceName deps))
            (UnlockByName (NI_Name ident) (networkInterfaceResourceName deps))
            (associationCreateUpdateLocked deps d ident resp writeErr waitErr readResp))"

text \<open>\<open>loadBalancerBackendAddressPoolAssociationDelete\<close>, from where the lock is held.\<close>

definition associationDeleteLocked ::
  "association_data \<Rightarrow> NetworkInterfaceIpConfigurationId \<Rightarrow> string \<Rightarrow> get_response
     \<Rightarrow> bool \<Rightarrow> bool \<Rightarrow> event list \<times> association_data \<times> error option"
where
  "associationDeleteLocked d nicID backendAddressPoolId resp writeErr waitErr =
     (let ev = [ClientGet (NIC_ResourceGroup nicID) (NIC_NetworkInterfaceName nicID)];
          read = gr_iface resp
      in
      if gr_err resp then
        (if gr_notFound resp then (ev, d, Some ErrWasNotFound)
         else (ev, d, Some ErrRetrieving))
      else
        (case IF_Properties read of
           None \<Rightarrow> (ev, d, Some ErrPropertiesNil)
         | Some nicProps \<Rightarrow>
        (case IPConfigurations nicProps of
           None \<Rightarrow> (ev, d, Some ErrIPConfigurationsNil)
         | Some ipConfigs \<Rightarrow>
        (case FindNetworkInterfaceIPConfiguration (IPConfigurations nicProps)
                (NIC_IpConfigurationName nicID) of
           None \<Rightarrow> (ev, d, Some ErrIPConfigurationNotFound)
         | Some config \<Rightarrow>
        (case IPC_Properties config of
           None \<Rightarrow> (ev, d, Some ErrIPConfigurationPropertiesNil)
         | Some props \<Rightarrow>
        (let backendAddressPools =
               (case LoadBalancerBackendAddressPools props of
                  None \<Rightarrow> []
                | Some backendPools \<Rightarrow> deletePoolsLoop backendPools backendAddressPoolId []);
             config' = config\<lparr>IPC_Properties :=
                         Some (props\<lparr>LoadBalancerBackendAddressPools :=
                           Some backendAddressPools\<rparr>)\<rparr>;
             read' = read\<lparr>IF_Properties :=
                       Some (nicProps\<lparr>IPConfigurations :=
                         updateNetworkInterfaceIPConfiguration config'
                           (IPConfigurations nicProps)\<rparr>)\<rparr>;
             ev2 = ev @ [ClientCreateOrUpdate (NIC_ResourceGroup nicID)
                           (NIC_NetworkInterfaceName nicID) read']
         in
         if writeErr then (ev2, d, Some ErrWriting)
         else if waitErr then (ev2 @ [WaitForCompletion], d, Some ErrWaiting)
         else (ev2 @ [WaitForCompletion], d, None)))))))"

definition loadBalancerBackendAddressPoolAssociationDelete ::
  "'i deps \<Rightarrow> association_data \<Rightarrow> get_response \<Rightarrow> bool \<Rightarrow> bool
     \<Rightarrow> event list \<times> association_data \<times> error option"
where
  "loadBalancerBackendAddressPoolAssociationDelete deps d resp writeErr waitErr =
     (let splitId = Split (ad_Id d) CHR ''|'' in
      if length splitId \<noteq> 2 then ([], d, Some ErrBadIdFormat)
      else
        (case parse_NetworkInterfaceIpConfigurationID deps (splitId ! 0) of
           None \<Rightarrow> ([], d, Some ErrParse)
         | Some nicID \<Rightarrow>
             withLock
               (LockByName (NIC_NetworkInterfaceName nicID) (networkInterfaceResourceName deps))
               (UnlockByName (NIC_NetworkInterfaceName nicID) (networkInterfaceResourceName deps))
               (associationDeleteLocked d nicID (splitId ! 1) resp writeErr waitErr)))"

section \<open>The network interface resource\<close>

text \<open>
  The resource data \<open>d\<close> of a network interface: its ID, whether it is new, the
  configured arguments as the plugin SDK hands them over, the keys the plan reports as
  changed, and the computed attributes the read handler sets.
\<close>

record nic_data =
  nd_Id :: string
  nd_IsNewResource :: bool
  nd_name :: string
  nd_resource_group_name :: string
  nd_location :: string
  nd_enable_ip_forwarding :: bool
  nd_dns_servers :: "go_value list"
  nd_ip_configuration :: "raw_config list"
  nd_tags :: "(string \<times> string) list"
  nd_changed :: "string list"
  nd_applied_dns_servers :: "string list"
  nd_internal_domain_name_suffix :: string
  nd_mac_address :: string
  nd_private_ip_address :: string
  nd_private_ip_addresses :: "string list"
  nd_virtual_machine_id :: string

definition HasChange :: "nic_data \<Rightarrow> string \<Rightarrow> bool" where
  "HasChange d k = (k \<in> set (nd_changed d))"

text \<open>An error returned by the expansion is wrapped; a panic is not an error value.\<close>

definition wrapExpanding :: "error \<Rightarrow> error" where
  "wrapExpanding e = (if e = Panic then Panic else ErrExpanding e)"

text \<open>
  \<open>flattenNetworkInterfaceIPConfigurations\<close>: it reads every field through the
  properties pointer without testing it, so an entry without properties panics.
\<close>

fun flattenLoop ::
  "InterfaceIPConfiguration list \<Rightarrow> ip_configuration_block list
     \<Rightarrow> error + ip_configuration_block list"
where
  "flattenLoop [] result = Inr result"
| "flattenLoop (ipConfig # rest) result =
     (case IPC_Properties ipConfig of
        None \<Rightarrow> Inl Panic
      | Some props \<Rightarrow>
          flattenLoop rest (result @
            [\<lparr> blk_name = (case IPC_Name ipConfig of None \<Rightarrow> [] | Some n \<Rightarrow> n),
               blk_subnet_id =
                 (case Subnet props of
                    None \<Rightarrow> []
                  | Some s \<Rightarrow> (case SR_ID s of None \<Rightarrow> [] | Some i \<Rightarrow> i)),
               blk_private_ip_address =
                 (case PrivateIPAddress props of None \<Rightarrow> [] | Some a \<Rightarrow> a),
               blk_private_ip_address_version = PrivateIPAddressVersion props,
               blk_private_ip_address_allocation = PrivateIPAllocationMethod props,
               blk_public_ip_address_id =
                 (case PublicIPAddress props of
                    None \<Rightarrow> []
                  | Some s \<Rightarrow> (case SR_ID s of None \<Rightarrow> [] | Some i \<Rightarrow> i)),
               blk_primary = Some (case Primary props of None \<Rightarrow> False | Some b \<Rightarrow> b) \<rparr>]))"

definition flattenNetworkInterfaceIPConfigurations ::
  "InterfaceIPConfiguration list option \<Rightarrow> error + ip_configuration_block list"
where
  "flattenNetworkInterfaceIPConfigurations input =
     (case input of None \<Rightarrow> Inr [] | Some configs \<Rightarrow> flattenLoop configs [])"

text \<open>
  The loop of the read handler over the private IP addresses: the address of the entry
  at index 0 is the primary one, every address is collected.
\<close>

fun privateIPLoop ::
  "InterfaceIPConfiguration list \<Rightarrow> nat \<Rightarrow> string \<Rightarrow> string list \<Rightarrow> string \<times> string list"
where
  "privateIPLoop [] i primaryPrivateIPAddress privateIPAddresses =
     (primaryPrivateIPAddress, privateIPAddresses)"
| "privateIPLoop (config # rest) i primaryPrivateIPAddress privateIPAddresses =
     (case IPC_Properties config of
        None \<Rightarrow> privateIPLoop rest (Suc i) primaryPrivateIPAddress privateIPAddresses
      | Some ipProps \<Rightarrow>
          (case PrivateIPAddress ipProps of
             None \<Rightarrow> privateIPLoop rest (Suc i) primaryPrivateIPAddress privateIPAddresses
           | Some v \<Rightarrow>
               privateIPLoop rest (Suc i) (if i = 0 then v else primaryPrivateIPAddress)
                 (privateIPAddresses @ [v])))"

text \<open>\<open>networkInterfaceRead\<close>.\<close>

definition networkInterfaceRead ::
  "'i deps \<Rightarrow> nic_data \<Rightarrow> get_response \<Rightarrow> event list \<times> nic_data \<times> error option"
where
  "networkInterfaceRead deps d resp =
     (case parse_NetworkInterfaceID deps (nd_Id d) of
        None \<Rightarrow> ([], d, Some ErrParse)
      | Some ident \<Rightarrow>
          (let ev = [ClientGet (NI_ResourceGroup ident) (NI_Name ident)];
               r = gr_iface resp
           in
           if gr_err resp then
             (if gr_notFound resp then (ev, d\<lparr>nd_Id := []\<rparr>, None)
              else (ev, d, Some ErrRetrieving))
           else
             (let d1 = d\<lparr>nd_name := NI_Name ident,
                        nd_resource_group_name := NI_ResourceGroup ident,
                        nd_location := location_NormalizeNilable deps (IF_Location r)\<rparr>
              in
              case IF_Properties r of
                None \<Rightarrow> (ev, d1, tags_FlattenAndSet deps (IF_Tags r))
              | Some props \<Rightarrow>
                  (let addrs =
                         (case IPConfigurations props of
                            None \<Rightarrow> ([], [])
                          | Some configs \<Rightarrow> privateIPLoop configs 0 [] []);
                       d2 = d1\<lparr>
                         nd_applied_dns_servers :=
                           (case DNSSettings props of
                              None \<Rightarrow> []
                            | Some s \<Rightarrow> flattenNetworkInterfaceDnsServers (AppliedDNSServers s)),
                         nd_dns_servers :=
                           map VString
                             (case DNSSettings props of
                                None \<Rightarrow> []
                              | Some s \<Rightarrow> flattenNetworkInterfaceDnsServers (DNSServers s)),
                         nd_enable_ip_forwarding :=
                           (case EnableIPForwarding props of None \<Rightarrow> False | Some b \<Rightarrow> b),
                         nd_internal_domain_name_suffix :=
                           (case DNSSettings props of
                              None \<Rightarrow> []
                            | Some s \<Rightarrow>
                                (case InternalDomainNameSuffix s of None \<Rightarrow> [] | Some x \<Rightarrow> x)),
                         nd_mac_address := (case MacAddress props of None \<Rightarrow> [] | Some m \<Rightarrow> m),
                         nd_private_ip_address := fst addrs,
                         nd_virtual_machine_id :=
                           (case VirtualMachine props of
                              None \<Rightarrow> []
                            | Some vm \<Rightarrow> (case SR_ID vm of None \<Rightarrow> [] | Some i \<Rightarrow> i))\<rparr>
                   in
                   case flattenNetworkInterfaceIPConfigurations (IPConfigurations props) of
                     Inl e \<Rightarrow> (ev, d2, Some e)
                   | Inr blocks \<Rightarrow>
                       (ev,
                        d2\<lparr>nd_ip_configuration := map rawOf blocks,
                           nd_private_ip_addresses := snd addrs\<rparr>,
                        tags_FlattenAndSet deps (IF_Tags r))))))"

text \<open>
  \<open>networkInterfaceCreate\<close>, from where the lock on the name is held. \<open>d.GetOk\<close>
  reports the DNS servers as set when the list is not empty.
\<close>

definition networkInterfaceCreateLocked ::
  "'i deps \<Rightarrow> nic_data \<Rightarrow> NetworkInterfaceId \<Rightarrow> bool \<Rightarrow> bool \<Rightarrow> get_response
     \<Rightarrow> event list \<times> nic_data \<times> error option"
where
  "networkInterfaceCreateLocked deps d ident writeErr waitErr readResp =
     (let location = location_Normalize deps (nd_location d);
          enableIpForwarding = nd_enable_ip_forwarding d;
          t = nd_tags d
      in
      case (if nd_dns_servers d \<noteq> [] then
              (case expandNetworkInterfaceDnsServers (nd_dns_servers d) of
                 Inl e \<Rightarrow> Inl e
               | Inr dns \<Rightarrow>
                   Inr (Some \<lparr> DNSServers = Some dns, AppliedDNSServers = None,
                                InternalDomainNameSuffix = None \<rparr>))
            else Inr None)
      of
        Inl e \<Rightarrow> ([], d, Some e)
      | Inr dnsSettings \<Rightarrow>
      (case expandNetworkInterfaceIPConfigurations (nd_ip_configuration d) of
         Inl e \<Rightarrow> ([], d, Some (wrapExpanding e))
       | Inr ipConfigs \<Rightarrow>
      (case determineResourcesToLockFromIPConfiguration deps (Some ipConfigs) of
         None \<Rightarrow> ([], d, Some ErrLockingDetails)
       | Some details \<Rightarrow>
           withLock (LockDetails details) (UnlockDetails details)
             (let properties =
                    \<lparr> VirtualMachine = None,
                      NetworkSecurityGroup = None,
                      IPConfigurations = (if length ipConfigs > 0 then Some ipConfigs else None),
                      DNSSettings = dnsSettings,
                      MacAddress = None,
                      EnableIPForwarding = Some enableIpForwarding \<rparr>;
                  iface =
                    \<lparr> IF_Properties = Some properties,
                      IF_ID = None,
                      IF_Name = Some (NI_Name ident),
                      IF_Location = Some location,
                      IF_Tags = tags_Expand deps t \<rparr>;
                  ev = [ClientCreateOrUpdate (NI_ResourceGroup ident) (NI_Name ident) iface]
              in
              if writeErr then (ev, d, Some ErrWriting)
              else if waitErr then (ev @ [WaitForCompletion], d, Some ErrWaiting)
              else
                precededBy (ev @ [WaitForCompletion])
                  (networkInterfaceRead deps
                     (d\<lparr>nd_Id := NetworkInterfaceId_ID deps ident\<rparr>) readResp)))))"

text \<open>
  The handler: for a new resource it first asks the API whether the interface exists,
  and only then takes the lock. \<open>resp\<close> is the answer to that question.
\<close>

definition networkInterfaceCreate ::
  "'i deps \<Rightarrow> string \<Rightarrow> nic_data \<Rightarrow> get_response \<Rightarrow> bool \<Rightarrow> bool \<Rightarrow> get_response
     \<Rightarrow> event list \<times> nic_data \<times> error option"
where
  "networkInterfaceCreate deps subscriptionId d resp writeErr waitErr readResp =
     (let ident = \<lparr> NI_SubscriptionId = subscriptionId,
                    NI_ResourceGroup = nd_resource_group_name d,
                    NI_Name = nd_name d \<rparr>;
          ev0 = [ClientGet (NI_ResourceGroup ident) (NI_Name ident)]
      in
      if nd_IsNewResource d \<and> gr_err resp \<and> \<not> gr_notFound resp
        then (ev0, d, Some ErrCheckingPresence)
      else if nd_IsNewResource d \<and> \<not> gr_notFound resp
        then (ev0, d, Some (ErrImportAsExists ''azurestack_network_interface''
                              (NetworkInterfaceId_ID deps ident)))
      else
        precededBy (if nd_IsNewResource d then ev0 else [])
          (withLock (LockByName (NI_Name ident) (networkInterfaceResourceName deps))
             (UnlockByName (NI_Name ident) (networkInterfaceResourceName deps))
             (networkInterfaceCreateLocked deps d ident writeErr waitErr readResp)))"

text \<open>
  \<open>networkInterfaceUpdate\<close>. The last part first: the payload is put together from the
  values chosen per field and sent.
\<close>

definition networkInterfaceUpdateSend ::
  "'i deps \<Rightarrow> nic_data \<Rightarrow> NetworkInterfaceId \<Rightarrow> Interface \<Rightarrow> InterfacePropertiesFormat
     \<Rightarrow> string \<Rightarrow> string list option \<Rightarrow> bool option \<Rightarrow> InterfaceIPConfiguration list option
     \<Rightarrow> bool \<Rightarrow> bool \<Rightarrow> event list \<times> nic_data \<times> error option"
where
  "networkInterfaceUpdateSend deps d ident existing existingProps location dnsServers
       enableIPForwarding ipConfigs writeErr waitErr =
     (let update =
            \<lparr> IF_Properties = Some
                \<lparr> VirtualMachine = None,
                  NetworkSecurityGroup = NetworkSecurityGroup existingProps,
                  IPConfigurations = ipConfigs,
                  DNSSettings = Some \<lparr> DNSServers = dnsServers, AppliedDNSServers = None,
                                       InternalDomainNameSuffix = None \<rparr>,
                  MacAddress = None,
                  EnableIPForwarding = enableIPForwarding \<rparr>,
              IF_ID = None,
              IF_Name = Some (NI_Name ident),
              IF_Location = Some location,
              IF_Tags = (if HasChange d ''tags'' then tags_Expand deps (nd_tags d)
                         else IF_Tags existing) \<rparr>;
          ev = [ClientCreateOrUpdate (NI_ResourceGroup ident) (NI_Name ident) update]
      in
      if writeErr then (ev, d, Some ErrWriting)
      else if waitErr then (ev @ [WaitForCompletion], d, Some ErrWaiting)
      else (ev @ [WaitForCompletion], d, None))"

text \<open>
  The DNS servers the handler sends: the expanded ones of the plan when they changed;
  otherwise the existing ones, read through \<open>existing.DNSSettings\<close> without a test for
  \<open>nil\<close>.
\<close>

definition updateDnsChoice ::
  "nic_data \<Rightarrow> InterfacePropertiesFormat \<Rightarrow> error + string list option" where
  "updateDnsChoice d existingProps =
     (if HasChange d ''dns_servers'' then
        (case expandNetworkInterfaceDnsServers (nd_dns_servers d) of
           Inl e \<Rightarrow> Inl e
         | Inr dnsServers \<Rightarrow> Inr (Some dnsServers))
      else
        (case DNSSettings existingProps of
           None \<Rightarrow> Inl Panic
         | Some s \<Rightarrow> Inr (DNSServers s)))"

text \<open>From where the lock is held.\<close>

definition networkInterfaceUpdateLocked ::
  "'i deps \<Rightarrow> nic_data \<Rightarrow> NetworkInterfaceId \<Rightarrow> get_response \<Rightarrow> bool \<Rightarrow> bool
     \<Rightarrow> event list \<times> nic_data \<times> error option"
where
  "networkInterfaceUpdateLocked deps d ident resp writeErr waitErr =
     (let ev = [ClientGet (NI_ResourceGroup ident) (NI_Name ident)];
          existing = gr_iface resp
      in
      if gr_err resp then (ev, d, Some ErrRetrieving)
      else
        (case IF_Properties existing of
           None \<Rightarrow> (ev, d, Some ErrPropertiesNil)
         | Some existingProps \<Rightarrow>
        (let info = parseFieldsFromNetworkInterface deps existingProps;
             location = location_Normalize deps (nd_location d)
         in
         case updateDnsChoice d existingProps of
           Inl e \<Rightarrow> (ev, d, Some e)
         | Inr dnsServers \<Rightarrow>
         (let enableIPForwarding =
                (if HasChange d ''enable_ip_forwarding'' then Some (nd_enable_ip_forwarding d)
                 else EnableIPForwarding existingProps)
          in
          if HasChange d ''ip_configuration'' then
            (case expandNetworkInterfaceIPConfigurations (nd_ip_configuration d) of
               Inl e \<Rightarrow> (ev, d, Some (wrapExpanding e))
             | Inr ipConfigs \<Rightarrow>
            (case determineResourcesToLockFromIPConfiguration deps (Some ipConfigs) of
               None \<Rightarrow> (ev, d, Some ErrLockingDetails)
             | Some details \<Rightarrow>
                 precededBy ev
                   (withLock (LockDetails details) (UnlockDetails details)
                      (networkInterfaceUpdateSend deps d ident existing existingProps location
                         dnsServers enableIPForwarding
                         (Some (mapFieldsToNetworkInterface deps ipConfigs info))
                         writeErr waitErr))))
          else
            precededBy ev
              (networkInterfaceUpdateSend deps d ident existing existingProps location
                 dnsServers enableIPForwarding (IPConfigurations existingProps)
                 writeErr waitErr)))))"

definition networkInterfaceUpdate ::
  "'i deps \<Rightarrow> nic_data \<Rightarrow> get_response \<Rightarrow> bool \<Rightarrow> bool
     \<Rightarrow> event list \<times> nic_data \<times> error option"
where
  "networkInterfaceUpdate deps d resp writeErr waitErr =
     (case parse_NetworkInterfaceID deps (nd_Id d) of
        None \<Rightarrow> ([], d, Some ErrParse)
      | Some ident \<Rightarrow>
          withLock (LockByName (NI_Name ident) (networkInterfaceResourceName deps))
            (UnlockByName (NI_Name ident) (networkInterfaceResourceName deps))
            (networkInterfaceUpdateLocked deps d ident resp writeErr waitErr))"



section \<open>The resource definitions\<close>









section \<open>The order of locking and remote calls\<close>




text \<open>The remote writes of a trace.\<close>

fun isWrite :: "event \<Rightarrow> bool" where
  "isWrite (ClientCreateOrUpdate rg name iface) = True"
| "isWrite (ClientDelete rg name) = True"
| "isWrite e = False"

definition writes :: "event list \<Rightarrow> event list" where
  "writes tr = filter isWrite tr"




section \<open>Example values\<close>

text \<open>
  Stand-ins for the helpers defined elsewhere: parsers that accept the IDs of one
  interface and of its configuration \<open>internal\<close>, and helpers that change nothing.
\<close>

definition exampleNicId :: NetworkInterfaceId where
  "exampleNicId = \<lparr> NI_SubscriptionId = ''sub'', NI_ResourceGroup = ''rg'', NI_Name = ''nic1'' \<rparr>"

definition exampleDeps :: "unit deps" where
  "exampleDeps =
     \<lparr> parse_NetworkInterfaceID =
         (\<lambda>s. if s = ''/rg/nic1'' then Some exampleNicId else None),
       parse_NetworkInterfaceIpConfigurationID =
         (\<lambda>s. if s = ''/rg/nic1/ipConfigurations/internal''
              then Some \<lparr> NIC_SubscriptionId = ''sub'', NIC_ResourceGroup = ''rg'',
                          NIC_NetworkInterfaceName = ''nic1'',
                          NIC_IpConfigurationName = ''internal'' \<rparr>
              else None),
       parse_LoadBalancerBackendAddressPoolID = (\<lambda>s. s = ''/lb/poolA'' \<or> s = ''/lb/poolB''),
       NetworkInterfaceId_ID = (\<lambda>i. ''/'' @ NI_ResourceGroup i @ ''/'' @ NI_Name i),
       networkInterfaceResourceName = ''azurestack_network_interface'',
       determineResourcesToLockFromIPConfiguration = (\<lambda>cs. Some (LockingDetails [])),
       parseFieldsFromNetworkInterface = (\<lambda>p. ()),
       mapFieldsToNetworkInterface = (\<lambda>cs i. cs),
       tags_Expand = Some,
       tags_FlattenAndSet = (\<lambda>t. None),
       location_Normalize = (\<lambda>s. s),
       location_NormalizeNilable = (\<lambda>s. case s of None \<Rightarrow> [] | Some l \<Rightarrow> l) \<rparr>"

text \<open>
  An interface with two IP configurations; \<open>internal\<close> is in one pool and carries one
  entry without ID.
\<close>

definition examplePoolX :: BackendAddressPool where
  "examplePoolX = \<lparr> BAP_ID = Some ''/lb/poolX'', BAP_Name = Some ''poolX'', BAP_Etag = Some ''e1'' \<rparr>"

definition examplePoolNoId :: BackendAddressPool where
  "examplePoolNoId = \<lparr> BAP_ID = None, BAP_Name = Some ''stale'', BAP_Etag = None \<rparr>"

definition examplePoolA :: BackendAddressPool where
  "examplePoolA = \<lparr> BAP_ID = Some ''/lb/poolA'', BAP_Name = Some ''poolA'', BAP_Etag = Some ''e2'' \<rparr>"

definition exampleInternalProps :: InterfaceIPConfigurationPropertiesFormat where
  "exampleInternalProps =
     \<lparr> LoadBalancerBackendAddressPools = Some [examplePoolX, examplePoolNoId],
       PrivateIPAddress = Some ''10.0.0.4'',
       PrivateIPAllocationMethod = ''Dynamic'',
       PrivateIPAddressVersion = ''IPv4'',
       Subnet = Some \<lparr> SR_ID = Some ''/subnets/a'' \<rparr>,
       Primary = Some True,
       PublicIPAddress = None \<rparr>"

definition exampleInternal :: InterfaceIPConfiguration where
  "exampleInternal =
     \<lparr> IPC_Properties = Some exampleInternalProps, IPC_Name = Some ''internal'',
       IPC_Etag = Some ''c1'', IPC_ID = Some ''/rg/nic1/ipConfigurations/internal'' \<rparr>"

definition exampleSecond :: InterfaceIPConfiguration where
  "exampleSecond =
     \<lparr> IPC_Properties = Some
         \<lparr> LoadBalancerBackendAddressPools = Some [examplePoolA],
           PrivateIPAddress = Some ''10.0.0.5'',
           PrivateIPAllocationMethod = ''Static'',
           PrivateIPAddressVersion = ''IPv4'',
           Subnet = Some \<lparr> SR_ID = Some ''/subnets/a'' \<rparr>,
           Primary = Some False,
           PublicIPAddress = None \<rparr>,
       IPC_Name = Some ''second'',
       IPC_Etag = Some ''c2'', IPC_ID = Some ''/rg/nic1/ipConfigurations/second'' \<rparr>"

definition exampleProps :: InterfacePropertiesFormat where
  "exampleProps =
     \<lparr> VirtualMachine = Some \<lparr> SR_ID = Some ''/vm/1'' \<rparr>,
       NetworkSecurityGroup = Some \<lparr> SR_ID = Some ''/nsg/1'' \<rparr>,
       IPConfigurations = Some [exampleInternal, exampleSecond],
       DNSSettings = Some \<lparr> DNSServers = Some [''10.0.0.1''], AppliedDNSServers = Some [],
                            InternalDomainNameSuffix = None \<rparr>,
       MacAddress = Some ''00-11'',
       EnableIPForwarding = Some True \<rparr>"

definition exampleInterface :: Interface where
  "exampleInterface =
     \<lparr> IF_Properties = Some exampleProps, IF_ID = Some ''/rg/nic1'', IF_Name = Some ''nic1'',
       IF_Location = Some ''local'', IF_Tags = Some [(''env'', ''test'')] \<rparr>"

definition exampleGet :: get_response where
  "exampleGet = \<lparr> gr_err = False, gr_notFound = False, gr_iface = exampleInterface \<rparr>"


definition exampleAssociation :: "string \<Rightarrow> association_data" where
  "exampleAssociation pool =
     \<lparr> ad_Id = ''/rg/nic1/ipConfigurations/internal|'' @ pool,
       ad_network_interface_id = ''/rg/nic1'',
       ad_ip_configuration_name = ''internal'',
       ad_backend_address_pool_id = pool \<rparr>"

text \<open>The resource data of a new interface with the two example blocks.\<close>

definition exampleNicData :: nic_data where
  "exampleNicData =
     \<lparr> nd_Id = ''/rg/nic1'',
       nd_IsNewResource = True,
       nd_name = ''nic1'',
       nd_resource_group_name = ''rg'',
       nd_location = ''local'',
       nd_enable_ip_forwarding = False,
       nd_dns_servers = [],
       nd_ip_configuration = map rawOf exampleBlocks,
       nd_tags = [(''env'', ''test'')],
       nd_changed = [],
       nd_applied_dns_servers = [],
       nd_internal_domain_name_suffix = [],
       nd_mac_address = [],
       nd_private_ip_address = [],
       nd_private_ip_addresses = [],
       nd_virtual_machine_id = [] \<rparr>"

text \<open>
  An update that changes \<open>enable_ip_forwarding\<close> only, and an answer whose interface has
  no DNS settings.
\<close>

definition exampleUpdateData :: nic_data where
  "exampleUpdateData =
     exampleNicData\<lparr>nd_IsNewResource := False, nd_enable_ip_forwarding := False,
       nd_changed := [''enable_ip_forwarding'']\<rparr>"

definition exampleGetNoDns :: get_response where
  "exampleGetNoDns =
     \<lparr> gr_err = False, gr_notFound = False,
       gr_iface = exampleInterface\<lparr>IF_Properties := Some (exampleProps\<lparr>DNSSettings := None\<rparr>)\<rparr> \<rparr>"

section \<open>Properties of expanding and flattening\<close>

lemma expandDnsLoop_strings:
  "expandDnsLoop (map VString xs) acc = Inr (acc @ xs)"
  by (induction xs arbitrary: acc) (simp_all add: assertString_def)

lemma expandOne_rawOf:
  "expandOne (rawOf b) =
     (if blockNeedsSubnet b then Inl ErrSubnetRequired else Inr (configOfBlock b))"
  by (cases "blk_primary b")
     (simp_all add: expandOne_def rawOf_def rawGet_def assertString_def assertBool_def
        blockNeedsSubnet_def configOfBlock_def)

lemma expandLoop_rawOf:
  "expandLoop (map rawOf bs) acc =
     (if list_ex blockNeedsSubnet bs then Inl ErrSubnetRequired
      else Inr (acc @ map configOfBlock bs))"
  by (induction bs arbitrary: acc) (simp_all add: expandOne_rawOf)

lemma hasPrimaryLoop_configOfBlock:
  "hasPrimaryLoop (map configOfBlock bs) = Inr (list_ex (\<lambda>b. blk_primary b = Some True) bs)"
  by (induction bs) (simp_all add: configOfBlock_def)

lemma expand_rawOf:
  "expandNetworkInterfaceIPConfigurations (map rawOf bs) =
     (if list_ex blockNeedsSubnet bs then Inl ErrSubnetRequired
      else if 1 < length bs \<and> \<not> list_ex (\<lambda>b. blk_primary b = Some True) bs
        then Inl ErrPrimaryRequired
      else Inr (map configOfBlock bs))"
  by (simp add: expandNetworkInterfaceIPConfigurations_def expandLoop_rawOf
      hasPrimaryLoop_configOfBlock)

text \<open>
  Claim C9. On blocks typed as the schema types them,
  \<open>expandNetworkInterfaceIPConfigurations\<close> returns an error exactly when some block has
  private IP address version IPv4 and an empty \<open>subnet_id\<close>, or there is more than one
  block and none has \<open>primary\<close> set to true. Otherwise it returns one configuration per
  block, in input order, whose name, subnet, private IP address, public IP address ID,
  allocation method, address version and primary flag are those of the block at the same
  position.
\<close>

theorem expand_ip_configurations_result:
  "((\<exists>e. expandNetworkInterfaceIPConfigurations (map rawOf bs) = Inl e) \<longleftrightarrow>
      ((\<exists>b \<in> set bs. blk_private_ip_address_version b = IPv4 \<and> blk_subnet_id b = '''') \<or>
       (1 < length bs \<and> (\<forall>b \<in> set bs. blk_primary b \<noteq> Some True))))
   \<and> (\<forall>out. expandNetworkInterfaceIPConfigurations (map rawOf bs) = Inr out \<longrightarrow>
        length out = length bs \<and>
        (\<forall>i < length bs.
           IPC_Name (out ! i) = Some (blk_name (bs ! i)) \<and>
           (\<exists>p. IPC_Properties (out ! i) = Some p \<and>
             Subnet p = (if blk_subnet_id (bs ! i) = '''' then None
                         else Some \<lparr> SR_ID = Some (blk_subnet_id (bs ! i)) \<rparr>) \<and>
             PrivateIPAddress p = (if blk_private_ip_address (bs ! i) = '''' then None
                         else Some (blk_private_ip_address (bs ! i))) \<and>
             PublicIPAddress p = (if blk_public_ip_address_id (bs ! i) = '''' then None
                         else Some \<lparr> SR_ID = Some (blk_public_ip_address_id (bs ! i)) \<rparr>) \<and>
             PrivateIPAllocationMethod p = blk_private_ip_address_allocation (bs ! i) \<and>
             PrivateIPAddressVersion p = blk_private_ip_address_version (bs ! i) \<and>
             Primary p = blk_primary (bs ! i))))"
proof -
  have ex1: "list_ex blockNeedsSubnet bs \<longleftrightarrow>
      (\<exists>b \<in> set bs. blk_private_ip_address_version b = IPv4 \<and> blk_subnet_id b = '''')"
    by (simp add: list_ex_iff blockNeedsSubnet_def)
  have ex2: "\<not> list_ex (\<lambda>b. blk_primary b = Some True) bs \<longleftrightarrow>
      (\<forall>b \<in> set bs. blk_primary b \<noteq> Some True)"
    by (simp add: list_ex_iff)
  have err: "(\<exists>e. expandNetworkInterfaceIPConfigurations (map rawOf bs) = Inl e) \<longleftrightarrow>
      (list_ex blockNeedsSubnet bs \<or>
       (1 < length bs \<and> \<not> list_ex (\<lambda>b. blk_primary b = Some True) bs))"
    by (simp add: expand_rawOf)
  have ok: "length out = length bs \<and>
        (\<forall>i < length bs.
           IPC_Name (out ! i) = Some (blk_name (bs ! i)) \<and>
           (\<exists>p. IPC_Properties (out ! i) = Some p \<and>
             Subnet p = (if blk_subnet_id (bs ! i) = '''' then None
                         else Some \<lparr> SR_ID = Some (blk_subnet_id (bs ! i)) \<rparr>) \<and>
             PrivateIPAddress p = (if blk_private_ip_address (bs ! i) = '''' then None
                         else Some (blk_private_ip_address (bs ! i))) \<and>
             PublicIPAddress p = (if blk_public_ip_address_id (bs ! i) = '''' then None
                         else Some \<lparr> SR_ID = Some (blk_public_ip_address_id (bs ! i)) \<rparr>) \<and>
             PrivateIPAllocationMethod p = blk_private_ip_address_allocation (bs ! i) \<and>
             PrivateIPAddressVersion p = blk_private_ip_address_version (bs ! i) \<and>
             Primary p = blk_primary (bs ! i)))"
    if "expandNetworkInterfaceIPConfigurations (map rawOf bs) = Inr out" for out
  proof -
    from that have out: "out = map configOfBlock bs"
      by (simp add: expand_rawOf split: if_splits)
    show ?thesis
      unfolding out by (simp add: configOfBlock_def)
  qed
  from err ok show ?thesis
    unfolding ex1 ex2 by blast
qed

theorem expand_ip_configurations_result_witness:
  "\<exists>out. expandNetworkInterfaceIPConfigurations (map rawOf exampleBlocks) = Inr out \<and>
     length out = 2 \<and>
     IPC_Name (out ! 1) = Some ''second'' \<and>
     (\<exists>p. IPC_Properties (out ! 1) = Some p \<and> PrivateIPAddress p = Some ''10.0.0.5'' \<and>
        Primary p = Some False)"
proof -
  have noerr: "\<not> (\<exists>e. expandNetworkInterfaceIPConfigurations (map rawOf exampleBlocks) = Inl e)"
    using expand_ip_configurations_result [of exampleBlocks]
    by (simp add: exampleBlocks_def IPv4_def)
  then obtain out where out: "expandNetworkInterfaceIPConfigurations (map rawOf exampleBlocks) = Inr out"
    by (cases "expandNetworkInterfaceIPConfigurations (map rawOf exampleBlocks)") auto
  have "length out = length exampleBlocks \<and>
     IPC_Name (out ! 1) = Some (blk_name (exampleBlocks ! 1)) \<and>
     (\<exists>p. IPC_Properties (out ! 1) = Some p \<and>
        PrivateIPAddress p = (if blk_private_ip_address (exampleBlocks ! 1) = '''' then None
                         else Some (blk_private_ip_address (exampleBlocks ! 1))) \<and>
        Primary p = blk_primary (exampleBlocks ! 1))"
    using expand_ip_configurations_result [of exampleBlocks] out
    by (auto simp: exampleBlocks_def)
  with out show ?thesis
    by (auto simp: exampleBlocks_def)
qed

text \<open>
  Claim C10. For every list of strings \<open>xs\<close>, \<open>expandNetworkInterfaceDnsServers\<close>
  succeeds and \<open>flattenNetworkInterfaceDnsServers\<close> applied to a pointer to its result
  gives \<open>xs\<close> back; applied to \<open>nil\<close> it gives the empty list.
\<close>

theorem dns_servers_round_trip:
  "(\<exists>dns. expandNetworkInterfaceDnsServers (map VString xs) = Inr dns \<and>
      flattenNetworkInterfaceDnsServers (Some dns) = xs)
   \<and> flattenNetworkInterfaceDnsServers None = []"
  by (simp add: expandNetworkInterfaceDnsServers_def expandDnsLoop_strings
      flattenNetworkInterfaceDnsServers_def)

section \<open>What the association handlers write\<close>

lemma createPoolsLoop_result:
  "createPoolsLoop existing bid rid acc =
     (if list_ex (\<lambda>q. BAP_ID q = Some bid) existing
      then Inl (ErrImportAsExists
             ''azurerm_network_interface_backend_address_pool_association'' rid)
      else Inr (acc @ filter (\<lambda>q. BAP_ID q \<noteq> None) existing))"
  by (induction existing arbitrary: acc) (auto split: option.splits)

lemma deletePoolsLoop_result:
  "deletePoolsLoop pools bid acc =
     acc @ filter (\<lambda>q. BAP_ID q \<noteq> None \<and> BAP_ID q \<noteq> Some bid) pools"
  by (induction pools arbitrary: acc) (auto split: option.splits)

lemma filter_fresh:
  "\<not> list_ex (\<lambda>q. BAP_ID q = Some bid) existing \<Longrightarrow>
     filter (\<lambda>q. BAP_ID q \<noteq> None) existing
       = filter (\<lambda>q. BAP_ID q \<noteq> None \<and> BAP_ID q \<noteq> Some bid) existing"
  by (induction existing) auto

lemma fst_withLock: "fst (withLock a r x) = [a] @ fst x @ [r]"
  by (cases x) (simp add: withLock_def)

lemma fst_precededBy: "fst (precededBy ev x) = ev @ fst x"
  by (cases x) (simp add: precededBy_def)

lemma writes_append: "writes (xs @ ys) = writes xs @ writes ys"
  by (simp add: writes_def)

lemma writes_simps:
  "writes [] = []"
  "writes (LockByName a b # es) = writes es"
  "writes (UnlockByName a b # es) = writes es"
  "writes (LockDetails l # es) = writes es"
  "writes (UnlockDetails l # es) = writes es"
  "writes (ClientGet rg n # es) = writes es"
  "writes (WaitForCompletion # es) = writes es"
  "writes (ClientCreateOrUpdate rg n w # es) = ClientCreateOrUpdate rg n w # writes es"
  "writes (ClientDelete rg n # es) = ClientDelete rg n # writes es"
  by (simp_all add: writes_def)

lemma write_in_writes:
  "ClientCreateOrUpdate rg n w \<in> set tr \<Longrightarrow> ClientCreateOrUpdate rg n w \<in> set (writes tr)"
  by (simp add: writes_def)

lemma association_read_writes:
  "writes (fst (loadBalancerBackendAddressPoolAssociationRead deps d resp)) = []"
  by (simp add: loadBalancerBackendAddressPoolAssociationRead_def Let_def writes_simps
      split: option.splits)

text \<open>
  Replacing the entry found under a name: the list changes at the position of the
  first entry with that name, and nowhere else.
\<close>

lemma replaceNamed_found:
  assumes "find (\<lambda>v. IPC_Name v = Some name) cfgs = Some c"
    and "IPC_Name c' = Some name"
  shows "\<exists>i < length cfgs.
           cfgs ! i = c \<and> (\<forall>j < i. IPC_Name (cfgs ! j) \<noteq> Some name) \<and>
           replaceNamed c' cfgs = cfgs[i := c']"
  using assms(1)
proof (induction cfgs)
  case Nil
  then show ?case by simp
next
  case (Cons v vs)
  show ?case
  proof (cases "IPC_Name v = Some name")
    case True
    with Cons.prems have "v = c" by simp
    with True assms(2) show ?thesis
      by (intro exI [of _ 0]) simp
  next
    case False
    with Cons.prems have "find (\<lambda>v. IPC_Name v = Some name) vs = Some c" by simp
    from Cons.IH [OF this] obtain i where i: "i < length vs" "vs ! i = c"
        "\<forall>j < i. IPC_Name (vs ! j) \<noteq> Some name" "replaceNamed c' vs = vs[i := c']"
      by blast
    have "\<forall>j < Suc i. IPC_Name ((v # vs) ! j) \<noteq> Some name"
      using False i(3) by (auto simp: less_Suc_eq_0_disj)
    with i False assms(2) show ?thesis
      by (intro exI [of _ "Suc i"]) simp
  qed
qed

text \<open>The interface the create handler sends, when it sends one.\<close>

lemma association_create_locked_writes:
  assumes props: "IF_Properties (gr_iface resp) = Some props"
    and cfgs: "IPConfigurations props = Some ipConfigs"
    and found: "FindNetworkInterfaceIPConfiguration (Some ipConfigs)
                  (ad_ip_configuration_name d) = Some c"
    and p: "IPC_Properties c = Some p"
  shows "writes (fst (associationCreateUpdateLocked deps d ident resp writeErr waitErr readResp)) =
     (if gr_err resp \<or>
         list_ex (\<lambda>q. BAP_ID q = Some (ad_backend_address_pool_id d))
           (case LoadBalancerBackendAddressPools p of None \<Rightarrow> [] | Some qs \<Rightarrow> qs)
      then []
      else [ClientCreateOrUpdate (NI_ResourceGroup ident) (NI_Name ident)
              ((gr_iface resp)\<lparr>IF_Properties := Some (props\<lparr>IPConfigurations := Some
                 (replaceNamed
                    (c\<lparr>IPC_Properties := Some (p\<lparr>LoadBalancerBackendAddressPools := Some
                       (filter (\<lambda>q. BAP_ID q \<noteq> None \<and>
                                  BAP_ID q \<noteq> Some (ad_backend_address_pool_id d))
                          (case LoadBalancerBackendAddressPools p of
                             None \<Rightarrow> [] | Some qs \<Rightarrow> qs)
                        @ [\<lparr> BAP_ID = Some (ad_backend_address_pool_id d), BAP_Name = None,
                             BAP_Etag = None \<rparr>])\<rparr>)\<rparr>)
                    ipConfigs)\<rparr>)\<rparr>)])"
proof (cases "LoadBalancerBackendAddressPools p")
  case None
  show ?thesis
    using props cfgs found p None
    by (simp add: associationCreateUpdateLocked_def Let_def writes_simps writes_append
        fst_precededBy association_read_writes updateNetworkInterfaceIPConfiguration_def)
next
  case (Some existing)
  show ?thesis
  proof (cases "list_ex (\<lambda>q. BAP_ID q = Some (ad_backend_address_pool_id d)) existing")
    case True
    then show ?thesis
      using props cfgs found p Some
      by (simp add: associationCreateUpdateLocked_def Let_def writes_simps
          createPoolsLoop_result)
  next
    case False
    show ?thesis
      using props cfgs found p Some False filter_fresh [OF False]
      by (simp add: associationCreateUpdateLocked_def Let_def writes_simps writes_append
          fst_precededBy association_read_writes updateNetworkInterfaceIPConfiguration_def
          createPoolsLoop_result)
  qed
qed

lemma association_create_writes:
  "writes (fst (loadBalancerBackendAddressPoolAssociationCreateUpdate deps d resp writeErr waitErr
                  readResp)) =
     (case parse_NetworkInterfaceID deps (ad_network_interface_id d) of
        None \<Rightarrow> []
      | Some ident \<Rightarrow>
          writes (fst (associationCreateUpdateLocked deps d ident resp writeErr waitErr readResp)))"
  by (simp add: loadBalancerBackendAddressPoolAssociationCreateUpdate_def fst_withLock
      writes_simps writes_append split: option.splits)

text \<open>
  Claim C1, as amended. Take an interface whose properties and IP configurations are
  not \<open>nil\<close> and in which the configuration found under the requested name has
  properties. Whatever \<open>loadBalancerBackendAddressPoolAssociationCreateUpdate\<close> writes back
  is that interface with the found configuration, at its position, differing only in its
  pool list, which holds the entries read that have an ID other than the requested one,
  in their order, followed by the requested pool; every other IP configuration and
  every other field is as read. The handler writes this, once, when the ID of the
  interface parses, the read succeeds and the requested pool is not yet in the list.
\<close>

theorem association_create_writes_back:
  assumes props: "IF_Properties (gr_iface resp) = Some props"
    and cfgs: "IPConfigurations props = Some ipConfigs"
    and found: "FindNetworkInterfaceIPConfiguration (Some ipConfigs)
                  (ad_ip_configuration_name d) = Some c"
    and p: "IPC_Properties c = Some p"
    and old: "old = (case LoadBalancerBackendAddressPools p of None \<Rightarrow> [] | Some qs \<Rightarrow> qs)"
    and c': "c' = c\<lparr>IPC_Properties := Some (p\<lparr>LoadBalancerBackendAddressPools := Some
               (filter (\<lambda>q. BAP_ID q \<noteq> None \<and> BAP_ID q \<noteq> Some (ad_backend_address_pool_id d)) old
                @ [\<lparr> BAP_ID = Some (ad_backend_address_pool_id d), BAP_Name = None,
                     BAP_Etag = None \<rparr>])\<rparr>)\<rparr>"
  shows "\<exists>i < length ipConfigs.
      ipConfigs ! i = c
    \<and> (\<forall>j < i. IPC_Name (ipConfigs ! j) \<noteq> Some (ad_ip_configuration_name d))
    \<and> (\<forall>rg n w.
          ClientCreateOrUpdate rg n w \<in> set (fst
            (loadBalancerBackendAddressPoolAssociationCreateUpdate deps d resp writeErr waitErr
               readResp)) \<longrightarrow>
          w = (gr_iface resp)\<lparr>IF_Properties :=
                Some (props\<lparr>IPConfigurations := Some (ipConfigs[i := c'])\<rparr>)\<rparr>)
    \<and> (\<forall>ident.
          parse_NetworkInterfaceID deps (ad_network_interface_id d) = Some ident \<and>
          \<not> gr_err resp \<and>
          \<not> list_ex (\<lambda>q. BAP_ID q = Some (ad_backend_address_pool_id d)) old \<longrightarrow>
          writes (fst
            (loadBalancerBackendAddressPoolAssociationCreateUpdate deps d resp writeErr waitErr
               readResp)) =
            [ClientCreateOrUpdate (NI_ResourceGroup ident) (NI_Name ident)
               ((gr_iface resp)\<lparr>IF_Properties :=
                  Some (props\<lparr>IPConfigurations := Some (ipConfigs[i := c'])\<rparr>)\<rparr>)])"
proof -
  from found have f: "find (\<lambda>v. IPC_Name v = Some (ad_ip_configuration_name d)) ipConfigs = Some c"
    by (simp add: FindNetworkInterfaceIPConfiguration_def)
  then have "IPC_Name c = Some (ad_ip_configuration_name d)"
    by (auto simp: find_Some_iff)
  then have c'name: "IPC_Name c' = Some (ad_ip_configuration_name d)"
    by (simp add: c')
  from replaceNamed_found [OF f c'name] obtain i where i: "i < length ipConfigs"
      "ipConfigs ! i = c"
      "\<forall>j < i. IPC_Name (ipConfigs ! j) \<noteq> Some (ad_ip_configuration_name d)"
      "replaceNamed c' ipConfigs = ipConfigs[i := c']"
    by blast
  have "writes (fst (associationCreateUpdateLocked deps d ident resp writeErr waitErr readResp)) =
     (if gr_err resp \<or> list_ex (\<lambda>q. BAP_ID q = Some (ad_backend_address_pool_id d)) old
      then []
      else [ClientCreateOrUpdate (NI_ResourceGroup ident) (NI_Name ident)
              ((gr_iface resp)\<lparr>IF_Properties :=
                 Some (props\<lparr>IPConfigurations := Some (replaceNamed c' ipConfigs)\<rparr>)\<rparr>)])"
    for ident
    unfolding c' old
    by (rule association_create_locked_writes [OF props cfgs found p])
  then have locked: "writes (fst (associationCreateUpdateLocked deps d ident resp writeErr waitErr readResp)) =
     (if gr_err resp \<or> list_ex (\<lambda>q. BAP_ID q = Some (ad_backend_address_pool_id d)) old
      then []
      else [ClientCreateOrUpdate (NI_ResourceGroup ident) (NI_Name ident)
              ((gr_iface resp)\<lparr>IF_Properties :=
                 Some (props\<lparr>IPConfigurations := Some (ipConfigs[i := c'])\<rparr>)\<rparr>)])" for ident
    by (simp only: i(4))
  have safety: "w = (gr_iface resp)\<lparr>IF_Properties :=
                Some (props\<lparr>IPConfigurations := Some (ipConfigs[i := c'])\<rparr>)\<rparr>"
    if "ClientCreateOrUpdate rg n w \<in> set (fst
            (loadBalancerBackendAddressPoolAssociationCreateUpdate deps d resp writeErr waitErr
               readResp))" for rg n w
  proof -
    from that have "ClientCreateOrUpdate rg n w \<in> set (writes (fst
            (loadBalancerBackendAddressPoolAssociationCreateUpdate deps d resp writeErr waitErr
               readResp)))"
      by (rule write_in_writes)
    then show ?thesis
      by (auto simp: association_create_writes locked split: option.splits if_splits)
  qed
  have live: "writes (fst
            (loadBalancerBackendAddressPoolAssociationCreateUpdate deps d resp writeErr waitErr
               readResp)) =
            [ClientCreateOrUpdate (NI_ResourceGroup ident) (NI_Name ident)
               ((gr_iface resp)\<lparr>IF_Properties :=
                  Some (props\<lparr>IPConfigurations := Some (ipConfigs[i := c'])\<rparr>)\<rparr>)]"
    if "parse_NetworkInterfaceID deps (ad_network_interface_id d) = Some ident"
      and "\<not> gr_err resp"
      and "\<not> list_ex (\<lambda>q. BAP_ID q = Some (ad_backend_address_pool_id d)) old" for ident
    using that by (simp add: association_create_writes locked)
  from i(1,2,3) safety live show ?thesis
    by blast
qed

theorem association_create_writes_back_witness:
  "writes (fst (loadBalancerBackendAddressPoolAssociationCreateUpdate exampleDeps
          (exampleAssociation ''/lb/poolB'') exampleGet False False exampleGet)) =
     [ClientCreateOrUpdate ''rg'' ''nic1''
        (exampleInterface\<lparr>IF_Properties :=
           Some (exampleProps\<lparr>IPConfigurations := Some
             [exampleInternal\<lparr>IPC_Properties := Some (exampleInternalProps\<lparr>
                 LoadBalancerBackendAddressPools := Some
                   [examplePoolX,
                    \<lparr> BAP_ID = Some ''/lb/poolB'', BAP_Name = None, BAP_Etag = None \<rparr>]\<rparr>)\<rparr>,
              exampleSecond]\<rparr>)\<rparr>)]"
proof -
  define c' where "c' =
     exampleInternal\<lparr>IPC_Properties := Some (exampleInternalProps\<lparr>
       LoadBalancerBackendAddressPools := Some
        (filter (\<lambda>q. BAP_ID q \<noteq> None \<and>
            BAP_ID q \<noteq> Some (ad_backend_address_pool_id (exampleAssociation ''/lb/poolB'')))
           [examplePoolX, examplePoolNoId]
         @ [\<lparr> BAP_ID = Some (ad_backend_address_pool_id (exampleAssociation ''/lb/poolB'')),
              BAP_Name = None, BAP_Etag = None \<rparr>])\<rparr>)\<rparr>"
  have props: "IF_Properties (gr_iface exampleGet) = Some exampleProps"
    by (simp add: exampleGet_def exampleInterface_def)
  have cfgs: "IPConfigurations exampleProps = Some [exampleInternal, exampleSecond]"
    by (simp add: exampleProps_def)
  have found: "FindNetworkInterfaceIPConfiguration (Some [exampleInternal, exampleSecond])
                  (ad_ip_configuration_name (exampleAssociation ''/lb/poolB'')) = Some exampleInternal"
    by (simp add: FindNetworkInterfaceIPConfiguration_def exampleAssociation_def
        exampleInternal_def exampleSecond_def)
  have p: "IPC_Properties exampleInternal = Some exampleInternalProps"
    by (simp add: exampleInternal_def)
  have old: "[examplePoolX, examplePoolNoId] =
      (case LoadBalancerBackendAddressPools exampleInternalProps of None \<Rightarrow> [] | Some qs \<Rightarrow> qs)"
    by (simp add: exampleInternalProps_def)
  have parse: "parse_NetworkInterfaceID exampleDeps
      (ad_network_interface_id (exampleAssociation ''/lb/poolB'')) = Some exampleNicId"
    by (simp add: exampleDeps_def exampleAssociation_def)
  have fresh: "\<not> list_ex (\<lambda>q. BAP_ID q = Some (ad_backend_address_pool_id
      (exampleAssociation ''/lb/poolB''))) [examplePoolX, examplePoolNoId]"
    by (simp add: exampleAssociation_def examplePoolX_def examplePoolNoId_def)
  have ok: "\<not> gr_err exampleGet"
    by (simp add: exampleGet_def)
  have neq: "exampleSecond \<noteq> exampleInternal"
    by (simp add: exampleInternal_def exampleSecond_def)
  from association_create_writes_back [OF props cfgs found p old c'_def,
      of exampleDeps False False exampleGet]
  obtain i where i: "i < length [exampleInternal, exampleSecond]"
    "[exampleInternal, exampleSecond] ! i = exampleInternal"
    "\<forall>ident.
          parse_NetworkInterfaceID exampleDeps
            (ad_network_interface_id (exampleAssociation ''/lb/poolB'')) = Some ident \<and>
          \<not> gr_err exampleGet \<and>
          \<not> list_ex (\<lambda>q. BAP_ID q = Some (ad_backend_address_pool_id
                (exampleAssociation ''/lb/poolB''))) [examplePoolX, examplePoolNoId] \<longrightarrow>
          writes (fst
            (loadBalancerBackendAddressPoolAssociationCreateUpdate exampleDeps
               (exampleAssociation ''/lb/poolB'') exampleGet False False exampleGet)) =
            [ClientCreateOrUpdate (NI_ResourceGroup ident) (NI_Name ident)
               ((gr_iface exampleGet)\<lparr>IF_Properties :=
                  Some (exampleProps\<lparr>IPConfigurations :=
                    Some ([exampleInternal, exampleSecond][i := c'])\<rparr>)\<rparr>)]"
    by blast
  from i(1,2) neq have i0: "i = 0"
    by (cases i) auto
  from i(3) parse ok fresh have "writes (fst
            (loadBalancerBackendAddressPoolAssociationCreateUpdate exampleDeps
               (exampleAssociation ''/lb/poolB'') exampleGet False False exampleGet)) =
            [ClientCreateOrUpdate (NI_ResourceGroup exampleNicId) (NI_Name exampleNicId)
               ((gr_iface exampleGet)\<lparr>IF_Properties :=
                  Some (exampleProps\<lparr>IPConfigurations :=
                    Some ([exampleInternal, exampleSecond][i := c'])\<rparr>)\<rparr>)]"
    by blast
  then show ?thesis
    by (simp add: i0 c'_def exampleNicId_def exampleGet_def exampleAssociation_def
        examplePoolX_def examplePoolNoId_def)
qed

text \<open>
  Claim C1 as stated fails: the example interface meets its conditions, but the pool
  \<open>/lb/poolX\<close> is already in the list of \<open>internal\<close>, and the handler returns the import
  error without writing anything back.
\<close>

theorem association_create_writes_back_counterexample:
  "IF_Properties (gr_iface exampleGet) = Some exampleProps
   \<and> IPConfigurations exampleProps = Some [exampleInternal, exampleSecond]
   \<and> FindNetworkInterfaceIPConfiguration (Some [exampleInternal, exampleSecond])
         (ad_ip_configuration_name (exampleAssociation ''/lb/poolX'')) = Some exampleInternal
   \<and> IPC_Properties exampleInternal = Some exampleInternalProps
   \<and> writes (fst (loadBalancerBackendAddressPoolAssociationCreateUpdate exampleDeps
         (exampleAssociation ''/lb/poolX'') exampleGet False False exampleGet)) = []
   \<and> snd (snd (loadBalancerBackendAddressPoolAssociationCreateUpdate exampleDeps
         (exampleAssociation ''/lb/poolX'') exampleGet False False exampleGet)) =
       Some (ErrImportAsExists ''azurerm_network_interface_backend_address_pool_association''
               ''/rg/nic1/ipConfigurations/internal|/lb/poolX'')"
  by (simp add: loadBalancerBackendAddressPoolAssociationCreateUpdate_def
      associationCreateUpdateLocked_def withLock_def Let_def createPoolsLoop_result
      writes_simps FindNetworkInterfaceIPConfiguration_def
      exampleDeps_def exampleAssociation_def exampleGet_def exampleInterface_def
      exampleProps_def exampleInternal_def exampleSecond_def exampleInternalProps_def
      examplePoolX_def examplePoolNoId_def exampleNicId_def)

lemma association_delete_locked_writes:
  assumes props: "IF_Properties (gr_iface resp) = Some props"
    and cfgs: "IPConfigurations props = Some ipConfigs"
    and found: "FindNetworkInterfaceIPConfiguration (Some ipConfigs)
                  (NIC_IpConfigurationName nicID) = Some c"
    and p: "IPC_Properties c = Some p"
  shows "writes (fst (associationDeleteLocked d nicID bid resp writeErr waitErr)) =
     (if gr_err resp then []
      else [ClientCreateOrUpdate (NIC_ResourceGroup nicID) (NIC_NetworkInterfaceName nicID)
              ((gr_iface resp)\<lparr>IF_Properties := Some (props\<lparr>IPConfigurations := Some
                 (replaceNamed
                    (c\<lparr>IPC_Properties := Some (p\<lparr>LoadBalancerBackendAddressPools := Some
                       (filter (\<lambda>q. BAP_ID q \<noteq> None \<and> BAP_ID q \<noteq> Some bid)
                          (case LoadBalancerBackendAddressPools p of
                             None \<Rightarrow> [] | Some qs \<Rightarrow> qs))\<rparr>)\<rparr>)
                    ipConfigs)\<rparr>)\<rparr>)])"
  using props cfgs found p
  by (cases "LoadBalancerBackendAddressPools p")
     (simp_all add: associationDeleteLocked_def Let_def writes_simps writes_append
        updateNetworkInterfaceIPConfiguration_def deletePoolsLoop_result)

lemma association_delete_writes:
  assumes "Split (ad_Id d) CHR ''|'' = [cfgId, bid]"
    and "parse_NetworkInterfaceIpConfigurationID deps cfgId = Some nicID"
  shows "writes (fst (loadBalancerBackendAddressPoolAssociationDelete deps d resp writeErr waitErr))
     = writes (fst (associationDeleteLocked d nicID bid resp writeErr waitErr))"
  using assms
  by (simp add: loadBalancerBackendAddressPoolAssociationDelete_def fst_withLock
      writes_simps writes_append)

text \<open>
  Claim C3. For an interface read successfully in which the configuration found under the
  name of the association's ID has properties,
  \<open>loadBalancerBackendAddressPoolAssociationDelete\<close> writes back, once, the interface with
  that configuration's pool list replaced by the entries read that have an ID other than
  the association's pool ID, in their order (entries without ID are dropped); every
  other IP configuration, and every other field, is as read.
\<close>

theorem association_delete_writes_back:
  assumes split: "Split (ad_Id d) CHR ''|'' = [cfgId, bid]"
    and parse: "parse_NetworkInterfaceIpConfigurationID deps cfgId = Some nicID"
    and ok: "\<not> gr_err resp"
    and props: "IF_Properties (gr_iface resp) = Some props"
    and cfgs: "IPConfigurations props = Some ipConfigs"
    and found: "FindNetworkInterfaceIPConfiguration (Some ipConfigs)
                  (NIC_IpConfigurationName nicID) = Some c"
    and p: "IPC_Properties c = Some p"
    and old: "old = (case LoadBalancerBackendAddressPools p of None \<Rightarrow> [] | Some qs \<Rightarrow> qs)"
  shows "\<exists>i < length ipConfigs.
      ipConfigs ! i = c
    \<and> (\<forall>j < i. IPC_Name (ipConfigs ! j) \<noteq> Some (NIC_IpConfigurationName nicID))
    \<and> writes (fst (loadBalancerBackendAddressPoolAssociationDelete deps d resp writeErr waitErr)) =
        [ClientCreateOrUpdate (NIC_ResourceGroup nicID) (NIC_NetworkInterfaceName nicID)
           ((gr_iface resp)\<lparr>IF_Properties :=
              Some (props\<lparr>IPConfigurations := Some
                (ipConfigs[i := c\<lparr>IPC_Properties := Some (p\<lparr>LoadBalancerBackendAddressPools :=
                   Some (filter (\<lambda>q. BAP_ID q \<noteq> None \<and> BAP_ID q \<noteq> Some bid) old)\<rparr>)\<rparr>])\<rparr>)\<rparr>)]"
proof -
  define c' where "c' =
     c\<lparr>IPC_Properties := Some (p\<lparr>LoadBalancerBackendAddressPools := Some
        (filter (\<lambda>q. BAP_ID q \<noteq> None \<and> BAP_ID q \<noteq> Some bid) old)\<rparr>)\<rparr>"
  from found have f: "find (\<lambda>v. IPC_Name v = Some (NIC_IpConfigurationName nicID)) ipConfigs = Some c"
    by (simp add: FindNetworkInterfaceIPConfiguration_def)
  then have "IPC_Name c = Some (NIC_IpConfigurationName nicID)"
    by (auto simp: find_Some_iff)
  then have c'name: "IPC_Name c' = Some (NIC_IpConfigurationName nicID)"
    by (simp add: c'_def)
  from replaceNamed_found [OF f c'name] obtain i where i: "i < length ipConfigs"
      "ipConfigs ! i = c"
      "\<forall>j < i. IPC_Name (ipConfigs ! j) \<noteq> Some (NIC_IpConfigurationName nicID)"
      "replaceNamed c' ipConfigs = ipConfigs[i := c']"
    by blast
  have "writes (fst (associationDeleteLocked d nicID bid resp writeErr waitErr)) =
     [ClientCreateOrUpdate (NIC_ResourceGroup nicID) (NIC_NetworkInterfaceName nicID)
        ((gr_iface resp)\<lparr>IF_Properties :=
           Some (props\<lparr>IPConfigurations := Some (replaceNamed c' ipConfigs)\<rparr>)\<rparr>)]"
    unfolding c'_def old
    using association_delete_locked_writes [OF props cfgs found p, of d bid writeErr waitErr] ok
    by simp
  then have "writes (fst (associationDeleteLocked d nicID bid resp writeErr waitErr)) =
     [ClientCreateOrUpdate (NIC_ResourceGroup nicID) (NIC_NetworkInterfaceName nicID)
        ((gr_iface resp)\<lparr>IF_Properties :=
           Some (props\<lparr>IPConfigurations := Some (ipConfigs[i := c'])\<rparr>)\<rparr>)]"
    by (simp only: i(4))
  then have w: "writes (fst (loadBalancerBackendAddressPoolAssociationDelete deps d resp writeErr waitErr)) =
     [ClientCreateOrUpdate (NIC_ResourceGroup nicID) (NIC_NetworkInterfaceName nicID)
        ((gr_iface resp)\<lparr>IF_Properties :=
           Some (props\<lparr>IPConfigurations := Some (ipConfigs[i := c'])\<rparr>)\<rparr>)]"
    by (simp add: association_delete_writes [OF split parse])
  from i(1,2,3) w show ?thesis
    unfolding c'_def by blast
qed

theorem association_delete_writes_back_witness:
  "writes (fst (loadBalancerBackendAddressPoolAssociationDelete exampleDeps
          (exampleAssociation ''/lb/poolX'') exampleGet False False)) =
     [ClientCreateOrUpdate ''rg'' ''nic1''
        (exampleInterface\<lparr>IF_Properties :=
           Some (exampleProps\<lparr>IPConfigurations := Some
             [exampleInternal\<lparr>IPC_Properties := Some (exampleInternalProps\<lparr>
                 LoadBalancerBackendAddressPools := Some []\<rparr>)\<rparr>,
              exampleSecond]\<rparr>)\<rparr>)]"
proof -
  define nicID where "nicID =
     \<lparr> NIC_SubscriptionId = ''sub'', NIC_ResourceGroup = ''rg'',
       NIC_NetworkInterfaceName = ''nic1'', NIC_IpConfigurationName = ''internal'' \<rparr>"
  have split: "Split (ad_Id (exampleAssociation ''/lb/poolX'')) CHR ''|''
      = [''/rg/nic1/ipConfigurations/internal'', ''/lb/poolX'']"
    by (simp add: exampleAssociation_def)
  have parse: "parse_NetworkInterfaceIpConfigurationID exampleDeps
      ''/rg/nic1/ipConfigurations/internal'' = Some nicID"
    by (simp add: exampleDeps_def nicID_def)
  have ok: "\<not> gr_err exampleGet"
    by (simp add: exampleGet_def)
  have props: "IF_Properties (gr_iface exampleGet) = Some exampleProps"
    by (simp add: exampleGet_def exampleInterface_def)
  have cfgs: "IPConfigurations exampleProps = Some [exampleInternal, exampleSecond]"
    by (simp add: exampleProps_def)
  have found: "FindNetworkInterfaceIPConfiguration (Some [exampleInternal, exampleSecond])
                  (NIC_IpConfigurationName nicID) = Some exampleInternal"
    by (simp add: FindNetworkInterfaceIPConfiguration_def nicID_def
        exampleInternal_def exampleSecond_def)
  have p: "IPC_Properties exampleInternal = Some exampleInternalProps"
    by (simp add: exampleInternal_def)
  have old: "[examplePoolX, examplePoolNoId] =
      (case LoadBalancerBackendAddressPools exampleInternalProps of None \<Rightarrow> [] | Some qs \<Rightarrow> qs)"
    by (simp add: exampleInternalProps_def)
  have neq: "exampleSecond \<noteq> exampleInternal"
    by (simp add: exampleInternal_def exampleSecond_def)
  from association_delete_writes_back [OF split parse ok props cfgs found p old,
      of False False]
  obtain i where i: "i < length [exampleInternal, exampleSecond]"
    "[exampleInternal, exampleSecond] ! i = exampleInternal"
    "writes (fst (loadBalancerBackendAddressPoolAssociationDelete exampleDeps
          (exampleAssociation ''/lb/poolX'') exampleGet False False)) =
        [ClientCreateOrUpdate (NIC_ResourceGroup nicID) (NIC_NetworkInterfaceName nicID)
           ((gr_iface exampleGet)\<lparr>IF_Properties :=
              Some (exampleProps\<lparr>IPConfigurations := Some
                ([exampleInternal, exampleSecond]
                   [i := exampleInternal\<lparr>IPC_Properties := Some (exampleInternalProps\<lparr>
                      LoadBalancerBackendAddressPools :=
                        Some (filter (\<lambda>q. BAP_ID q \<noteq> None \<and> BAP_ID q \<noteq> Some ''/lb/poolX'')
                                [examplePoolX, examplePoolNoId])\<rparr>)\<rparr>])\<rparr>)\<rparr>)]"
    by blast
  from i(1,2) neq have i0: "i = 0"
    by (cases i) auto
  from i(3) show ?thesis
    by (simp add: i0 nicID_def exampleGet_def examplePoolX_def examplePoolNoId_def)
qed

text \<open>
  Claim C4. When the requested pool ID is the ID of an entry of the named
  configuration's pool list, the create handler of the association returns the
  import-as-exists error after its read, without any write; and for a new resource
  \<open>networkInterfaceCreate\<close> returns the import-as-exists error, without any write, when
  the interface is found to exist.
\<close>

theorem import_as_exists:
  "(parse_NetworkInterfaceID deps (ad_network_interface_id d) = Some ident \<and>
    \<not> gr_err resp \<and>
    IF_Properties (gr_iface resp) = Some props \<and>
    IPConfigurations props = Some ipConfigs \<and>
    FindNetworkInterfaceIPConfiguration (Some ipConfigs) (ad_ip_configuration_name d) = Some c \<and>
    IPC_Properties c = Some p \<and>
    LoadBalancerBackendAddressPools p = Some existing \<and>
    (\<exists>q \<in> set existing. BAP_ID q = Some (ad_backend_address_pool_id d))
    \<longrightarrow>
      loadBalancerBackendAddressPoolAssociationCreateUpdate deps d resp writeErr waitErr readResp =
        ([LockByName (NI_Name ident) (networkInterfaceResourceName deps),
          ClientGet (NI_ResourceGroup ident) (NI_Name ident),
          UnlockByName (NI_Name ident) (networkInterfaceResourceName deps)],
         d,
         Some (ErrImportAsExists ''azurerm_network_interface_backend_address_pool_association''
                 (ad_network_interface_id d @ ''/ipConfigurations/'' @ ad_ip_configuration_name d
                    @ ''|'' @ ad_backend_address_pool_id d))) \<and>
      writes (fst (loadBalancerBackendAddressPoolAssociationCreateUpdate deps d resp writeErr
                     waitErr readResp)) = [])
   \<and>
   (nd_IsNewResource nd \<and> \<not> gr_err resp' \<and> \<not> gr_notFound resp'
    \<longrightarrow>
      networkInterfaceCreate deps subscriptionId nd resp' writeErr waitErr readResp =
        ([ClientGet (nd_resource_group_name nd) (nd_name nd)],
         nd,
         Some (ErrImportAsExists ''azurestack_network_interface''
                 (NetworkInterfaceId_ID deps
                    \<lparr> NI_SubscriptionId = subscriptionId,
                      NI_ResourceGroup = nd_resource_group_name nd,
                      NI_Name = nd_name nd \<rparr>))) \<and>
      writes (fst (networkInterfaceCreate deps subscriptionId nd resp' writeErr waitErr readResp))
        = [])"
proof (intro conjI impI; elim conjE)
  assume a: "parse_NetworkInterfaceID deps (ad_network_interface_id d) = Some ident"
    "\<not> gr_err resp" "IF_Properties (gr_iface resp) = Some props"
    "IPConfigurations props = Some ipConfigs"
    "FindNetworkInterfaceIPConfiguration (Some ipConfigs) (ad_ip_configuration_name d) = Some c"
    "IPC_Properties c = Some p" "LoadBalancerBackendAddressPools p = Some existing"
    "\<exists>q \<in> set existing. BAP_ID q = Some (ad_backend_address_pool_id d)"
  then have ex: "list_ex (\<lambda>q. BAP_ID q = Some (ad_backend_address_pool_id d)) existing"
    by (simp add: list_ex_iff)
  from a ex show r: "loadBalancerBackendAddressPoolAssociationCreateUpdate deps d resp writeErr waitErr readResp =
        ([LockByName (NI_Name ident) (networkInterfaceResourceName deps),
          ClientGet (NI_ResourceGroup ident) (NI_Name ident),
          UnlockByName (NI_Name ident) (networkInterfaceResourceName deps)],
         d,
         Some (ErrImportAsExists ''azurerm_network_interface_backend_address_pool_association''
                 (ad_network_interface_id d @ ''/ipConfigurations/'' @ ad_ip_configuration_name d
                    @ ''|'' @ ad_backend_address_pool_id d)))"
    by (simp add: loadBalancerBackendAddressPoolAssociationCreateUpdate_def
        associationCreateUpdateLocked_def withLock_def Let_def createPoolsLoop_result)
  show "writes (fst (loadBalancerBackendAddressPoolAssociationCreateUpdate deps d resp writeErr
                     waitErr readResp)) = []"
    by (simp add: r writes_simps)
next
  assume b: "nd_IsNewResource nd" "\<not> gr_err resp'" "\<not> gr_notFound resp'"
  then show r: "networkInterfaceCreate deps subscriptionId nd resp' writeErr waitErr readResp =
        ([ClientGet (nd_resource_group_name nd) (nd_name nd)],
         nd,
         Some (ErrImportAsExists ''azurestack_network_interface''
                 (NetworkInterfaceId_ID deps
                    \<lparr> NI_SubscriptionId = subscriptionId,
                      NI_ResourceGroup = nd_resource_group_name nd,
                      NI_Name = nd_name nd \<rparr>)))"
    by (simp add: networkInterfaceCreate_def Let_def)
  show "writes (fst (networkInterfaceCreate deps subscriptionId nd resp' writeErr waitErr readResp))
        = []"
    by (simp add: r writes_simps)
qed

theorem import_as_exists_witness:
  "loadBalancerBackendAddressPoolAssociationCreateUpdate exampleDeps
      (exampleAssociation ''/lb/poolX'') exampleGet False False exampleGet =
     ([LockByName ''nic1'' ''azurestack_network_interface'',
       ClientGet ''rg'' ''nic1'',
       UnlockByName ''nic1'' ''azurestack_network_interface''],
      exampleAssociation ''/lb/poolX'',
      Some (ErrImportAsExists ''azurerm_network_interface_backend_address_pool_association''
              ''/rg/nic1/ipConfigurations/internal|/lb/poolX''))
   \<and> networkInterfaceCreate exampleDeps ''sub'' exampleNicData exampleGet False False exampleGet =
     ([ClientGet ''rg'' ''nic1''], exampleNicData,
      Some (ErrImportAsExists ''azurestack_network_interface'' ''/rg/nic1''))"
proof -
  have a: "parse_NetworkInterfaceID exampleDeps
        (ad_network_interface_id (exampleAssociation ''/lb/poolX'')) = Some exampleNicId \<and>
    \<not> gr_err exampleGet \<and>
    IF_Properties (gr_iface exampleGet) = Some exampleProps \<and>
    IPConfigurations exampleProps = Some [exampleInternal, exampleSecond] \<and>
    FindNetworkInterfaceIPConfiguration (Some [exampleInternal, exampleSecond])
      (ad_ip_configuration_name (exampleAssociation ''/lb/poolX'')) = Some exampleInternal \<and>
    IPC_Properties exampleInternal = Some exampleInternalProps \<and>
    LoadBalancerBackendAddressPools exampleInternalProps = Some [examplePoolX, examplePoolNoId] \<and>
    (\<exists>q \<in> set [examplePoolX, examplePoolNoId].
       BAP_ID q = Some (ad_backend_address_pool_id (exampleAssociation ''/lb/poolX'')))"
    by (simp add: exampleDeps_def exampleAssociation_def exampleGet_def exampleInterface_def
        exampleProps_def FindNetworkInterfaceIPConfiguration_def exampleInternal_def
        exampleSecond_def exampleInternalProps_def examplePoolX_def)
  have b: "nd_IsNewResource exampleNicData \<and> \<not> gr_err exampleGet \<and> \<not> gr_notFound exampleGet"
    by (simp add: exampleNicData_def exampleGet_def)
  from a b import_as_exists [where deps = exampleDeps and d = "exampleAssociation ''/lb/poolX''"
      and ident = exampleNicId and resp = exampleGet and props = exampleProps
      and ipConfigs = "[exampleInternal, exampleSecond]" and c = exampleInternal
      and p = exampleInternalProps and existing = "[examplePoolX, examplePoolNoId]"
      and writeErr = False and waitErr = False and readResp = exampleGet
      and nd = exampleNicData and resp' = exampleGet and subscriptionId = "''sub''"]
  show ?thesis
    by (simp add: exampleNicId_def exampleDeps_def exampleAssociation_def exampleNicData_def)
qed

section \<open>The import ID and the resource definitions\<close>

lemma Split_not_Nil: "Split s sep \<noteq> []"
  by (induction s) (auto split: list.splits)

lemma Split_without_sep: "sep \<notin> set s \<Longrightarrow> Split s sep = [s]"
  by (induction s) auto

lemma Split_with_sep: "sep \<in> set s \<Longrightarrow> 2 \<le> length (Split s sep)"
proof (induction s)
  case Nil
  then show ?case by simp
next
  case (Cons c cs)
  show ?case
  proof (cases "c = sep")
    case True
    have "1 \<le> length (Split cs sep)"
      using Split_not_Nil [of cs sep] by (cases "Split cs sep") auto
    with True show ?thesis by simp
  next
    case False
    with Cons have "2 \<le> length (Split cs sep)" by simp
    with False show ?thesis by (auto split: list.splits)
  qed
qed

text \<open>
  Claim C8, as amended. The importer's validation function reads elements 0 and 1 of the split ID
  without a length check. On an ID that contains \<open>|\<close> both reads are in range and it
  does not panic. On every ID without \<open>|\<close> the split has one element, so the read of
  element 1 is out of range: the function panics there as soon as the first parse
  succeeds (it returns the parse error before that read otherwise). The read and delete
  handlers return an error, without any remote call, whenever the split does not have
  exactly two parts.
\<close>

theorem import_validation_bounds:
  "(CHR ''|'' \<in> set ident \<longrightarrow> associationImporter deps ident \<noteq> Some Panic)
   \<and> (CHR ''|'' \<notin> set ident \<longrightarrow>
        length (Split ident CHR ''|'') = 1 \<and>
        index (Split ident CHR ''|'') 1 = Inl Panic \<and>
        associationImporter deps ident =
          (case parse_NetworkInterfaceIpConfigurationID deps ident of
             None \<Rightarrow> Some ErrParse
           | Some nicID \<Rightarrow> Some Panic))
   \<and> (length (Split (ad_Id d) CHR ''|'') \<noteq> 2 \<longrightarrow>
        loadBalancerBackendAddressPoolAssociationRead deps d resp = ([], d, Some ErrBadIdFormat) \<and>
        loadBalancerBackendAddressPoolAssociationDelete deps d resp writeErr waitErr
          = ([], d, Some ErrBadIdFormat))"
proof (intro conjI impI)
  assume "CHR ''|'' \<in> set ident"
  then have "2 \<le> length (Split ident CHR ''|'')" by (rule Split_with_sep)
  then show "associationImporter deps ident \<noteq> Some Panic"
    by (auto simp: associationImporter_def index_def Let_def split: option.splits)
next
  assume "CHR ''|'' \<notin> set ident"
  then have s: "Split ident CHR ''|'' = [ident]" by (rule Split_without_sep)
  show "length (Split ident CHR ''|'') = 1"
    by (simp add: s)
  show "index (Split ident CHR ''|'') 1 = Inl Panic"
    by (simp add: s index_def)
  show "associationImporter deps ident =
          (case parse_NetworkInterfaceIpConfigurationID deps ident of
             None \<Rightarrow> Some ErrParse
           | Some nicID \<Rightarrow> Some Panic)"
    by (simp add: associationImporter_def s index_def split: option.splits)
next
  assume "length (Split (ad_Id d) CHR ''|'') \<noteq> 2"
  then show "loadBalancerBackendAddressPoolAssociationRead deps d resp = ([], d, Some ErrBadIdFormat)"
    by (simp add: loadBalancerBackendAddressPoolAssociationRead_def)
next
  assume "length (Split (ad_Id d) CHR ''|'') \<noteq> 2"
  then show "loadBalancerBackendAddressPoolAssociationDelete deps d resp writeErr waitErr
          = ([], d, Some ErrBadIdFormat)"
    by (simp add: loadBalancerBackendAddressPoolAssociationDelete_def)
qed

theorem import_validation_bounds_witness:
  "associationImporter exampleDeps ''/rg/nic1/ipConfigurations/internal|/lb/poolA'' \<noteq> Some Panic
   \<and> index (Split ''/rg/nic1/ipConfigurations/internal'' CHR ''|'') 1 = Inl Panic
   \<and> associationImporter exampleDeps ''/rg/nic1/ipConfigurations/internal'' = Some Panic
   \<and> loadBalancerBackendAddressPoolAssociationRead exampleDeps
        ((exampleAssociation ''/lb/poolA'')\<lparr>ad_Id := ''/rg/nic1/ipConfigurations/internal''\<rparr>)
        exampleGet
      = ([], (exampleAssociation ''/lb/poolA'')\<lparr>ad_Id := ''/rg/nic1/ipConfigurations/internal''\<rparr>,
         Some ErrBadIdFormat)
   \<and> loadBalancerBackendAddressPoolAssociationDelete exampleDeps
        ((exampleAssociation ''/lb/poolA'')\<lparr>ad_Id := ''/rg/nic1/ipConfigurations/internal''\<rparr>)
        exampleGet False False
      = ([], (exampleAssociation ''/lb/poolA'')\<lparr>ad_Id := ''/rg/nic1/ipConfigurations/internal''\<rparr>,
         Some ErrBadIdFormat)"
proof -
  have with_sep: "CHR ''|'' \<in> set ''/rg/nic1/ipConfigurations/internal|/lb/poolA''"
    by simp
  have without_sep: "CHR ''|'' \<notin> set ''/rg/nic1/ipConfigurations/internal''"
    by simp
  have len: "length (Split (ad_Id ((exampleAssociation ''/lb/poolA'')
      \<lparr>ad_Id := ''/rg/nic1/ipConfigurations/internal''\<rparr>)) CHR ''|'') \<noteq> 2"
    by simp
  have parses: "parse_NetworkInterfaceIpConfigurationID exampleDeps
      ''/rg/nic1/ipConfigurations/internal'' \<noteq> None"
    by (simp add: exampleDeps_def)
  from import_validation_bounds [of "''/rg/nic1/ipConfigurations/internal|/lb/poolA''" exampleDeps]
    with_sep
  have one: "associationImporter exampleDeps ''/rg/nic1/ipConfigurations/internal|/lb/poolA''
      \<noteq> Some Panic"
    by blast
  from import_validation_bounds [of "''/rg/nic1/ipConfigurations/internal''" exampleDeps
      "(exampleAssociation ''/lb/poolA'')\<lparr>ad_Id := ''/rg/nic1/ipConfigurations/internal''\<rparr>"
      exampleGet False False]
    without_sep len
  have two: "index (Split ''/rg/nic1/ipConfigurations/internal'' CHR ''|'') 1 = Inl Panic"
    and three: "associationImporter exampleDeps ''/rg/nic1/ipConfigurations/internal'' =
          (case parse_NetworkInterfaceIpConfigurationID exampleDeps
                  ''/rg/nic1/ipConfigurations/internal'' of
             None \<Rightarrow> Some ErrParse
           | Some nicID \<Rightarrow> Some Panic)"
    and four: "loadBalancerBackendAddressPoolAssociationRead exampleDeps
        ((exampleAssociation ''/lb/poolA'')\<lparr>ad_Id := ''/rg/nic1/ipConfigurations/internal''\<rparr>)
        exampleGet
      = ([], (exampleAssociation ''/lb/poolA'')\<lparr>ad_Id := ''/rg/nic1/ipConfigurations/internal''\<rparr>,
         Some ErrBadIdFormat)"
    and five: "loadBalancerBackendAddressPoolAssociationDelete exampleDeps
        ((exampleAssociation ''/lb/poolA'')\<lparr>ad_Id := ''/rg/nic1/ipConfigurations/internal''\<rparr>)
        exampleGet False False
      = ([], (exampleAssociation ''/lb/poolA'')\<lparr>ad_Id := ''/rg/nic1/ipConfigurations/internal''\<rparr>,
         Some ErrBadIdFormat)"
    by blast+
  from three parses have "associationImporter exampleDeps ''/rg/nic1/ipConfigurations/internal''
      = Some Panic"
    by (auto split: option.splits)
  with one two four five show ?thesis
    by blast
qed

text \<open>
  Claim C8 as stated fails: the function is total on an ID without \<open>|\<close> that does not
  parse as the ID of an IP configuration; it returns the parse error and never reads
  element 1.
\<close>

theorem import_validation_bounds_counterexample:
  "CHR ''|'' \<notin> set ''nic'' \<and> associationImporter exampleDeps ''nic'' = Some ErrParse"
  by (simp add: associationImporter_def index_def exampleDeps_def)



section \<open>What the update of a network interface sends\<close>

lemma update_send_writes:
  "writes (fst (networkInterfaceUpdateSend deps d ident existing existingProps location dnsServers
                  enableIPForwarding ipConfigs writeErr waitErr)) =
     [ClientCreateOrUpdate (NI_ResourceGroup ident) (NI_Name ident)
        \<lparr> IF_Properties = Some
            \<lparr> VirtualMachine = None,
              NetworkSecurityGroup = NetworkSecurityGroup existingProps,
              IPConfigurations = ipConfigs,
              DNSSettings = Some \<lparr> DNSServers = dnsServers, AppliedDNSServers = None,
                                   InternalDomainNameSuffix = None \<rparr>,
              MacAddress = None,
              EnableIPForwarding = enableIPForwarding \<rparr>,
          IF_ID = None,
          IF_Name = Some (NI_Name ident),
          IF_Location = Some location,
          IF_Tags = (if HasChange d ''tags'' then tags_Expand deps (nd_tags d)
                     else IF_Tags existing) \<rparr>]"
  by (simp add: networkInterfaceUpdateSend_def Let_def writes_simps)

lemma update_locked_writes:
  "writes (fst (networkInterfaceUpdateLocked deps d ident resp writeErr waitErr)) =
     (if gr_err resp then []
      else case IF_Properties (gr_iface resp) of
        None \<Rightarrow> []
      | Some existingProps \<Rightarrow>
        (case updateDnsChoice d existingProps of
           Inl e \<Rightarrow> []
         | Inr dnsServers \<Rightarrow>
           if HasChange d ''ip_configuration'' then
             (case expandNetworkInterfaceIPConfigurations (nd_ip_configuration d) of
                Inl e \<Rightarrow> []
              | Inr ipConfigs \<Rightarrow>
                (case determineResourcesToLockFromIPConfiguration deps (Some ipConfigs) of
                   None \<Rightarrow> []
                 | Some details \<Rightarrow>
                     writes (fst (networkInterfaceUpdateSend deps d ident (gr_iface resp)
                       existingProps (location_Normalize deps (nd_location d)) dnsServers
                       (if HasChange d ''enable_ip_forwarding''
                        then Some (nd_enable_ip_forwarding d)
                        else EnableIPForwarding existingProps)
                       (Some (mapFieldsToNetworkInterface deps ipConfigs
                          (parseFieldsFromNetworkInterface deps existingProps)))
                       writeErr waitErr))))
           else
             writes (fst (networkInterfaceUpdateSend deps d ident (gr_iface resp)
               existingProps (location_Normalize deps (nd_location d)) dnsServers
               (if HasChange d ''enable_ip_forwarding''
                then Some (nd_enable_ip_forwarding d)
                else EnableIPForwarding existingProps)
               (IPConfigurations existingProps) writeErr waitErr))))"
  by (simp add: networkInterfaceUpdateLocked_def updateDnsChoice_def Let_def writes_simps
      writes_append fst_precededBy fst_withLock
      split: option.splits sum.splits)

lemma update_writes:
  "writes (fst (networkInterfaceUpdate deps d resp writeErr waitErr)) =
     (case parse_NetworkInterfaceID deps (nd_Id d) of
        None \<Rightarrow> []
      | Some ident \<Rightarrow> writes (fst (networkInterfaceUpdateLocked deps d ident resp writeErr waitErr)))"
  by (simp add: networkInterfaceUpdate_def fst_withLock writes_simps writes_append
      split: option.splits)

text \<open>
  What the handler sends where it sends. Whatever \<open>networkInterfaceUpdate\<close> sends carries
  the network security group of the interface it read, and for each of \<open>dns_servers\<close>,
  \<open>enable_ip_forwarding\<close>, \<open>ip_configuration\<close> and \<open>tags\<close> that the plan reports as
  unchanged, the value read. It sends, once, when its ID parses, the read succeeds with
  properties, the DNS servers can be picked (changed ones expand, unchanged ones sit in
  DNS settings that are not \<open>nil\<close>) and changed IP configurations expand and can be
  locked.
\<close>

lemma update_sends_values_read:
  "(\<forall>rg n u.
      ClientCreateOrUpdate rg n u \<in> set (fst (networkInterfaceUpdate deps d resp writeErr waitErr))
      \<longrightarrow>
      (\<exists>existingProps uProps.
          IF_Properties (gr_iface resp) = Some existingProps \<and>
          IF_Properties u = Some uProps \<and>
          NetworkSecurityGroup uProps = NetworkSecurityGroup existingProps \<and>
          (\<not> HasChange d ''dns_servers'' \<longrightarrow>
             (\<exists>s us. DNSSettings existingProps = Some s \<and> DNSSettings uProps = Some us \<and>
                DNSServers us = DNSServers s)) \<and>
          (\<not> HasChange d ''enable_ip_forwarding'' \<longrightarrow>
             EnableIPForwarding uProps = EnableIPForwarding existingProps) \<and>
          (\<not> HasChange d ''ip_configuration'' \<longrightarrow>
             IPConfigurations uProps = IPConfigurations existingProps) \<and>
          (\<not> HasChange d ''tags'' \<longrightarrow> IF_Tags u = IF_Tags (gr_iface resp))))
   \<and> (\<forall>ident existingProps.
        parse_NetworkInterfaceID deps (nd_Id d) = Some ident \<and>
        \<not> gr_err resp \<and>
        IF_Properties (gr_iface resp) = Some existingProps \<and>
        (if HasChange d ''dns_servers''
         then \<exists>dns. expandNetworkInterfaceDnsServers (nd_dns_servers d) = Inr dns
         else DNSSettings existingProps \<noteq> None) \<and>
        (HasChange d ''ip_configuration'' \<longrightarrow>
           (\<exists>cs. expandNetworkInterfaceIPConfigurations (nd_ip_configuration d) = Inr cs \<and>
              determineResourcesToLockFromIPConfiguration deps (Some cs) \<noteq> None))
        \<longrightarrow>
        (\<exists>u. writes (fst (networkInterfaceUpdate deps d resp writeErr waitErr)) =
           [ClientCreateOrUpdate (NI_ResourceGroup ident) (NI_Name ident) u]))"
proof (intro conjI allI impI)
  fix rg n u
  assume "ClientCreateOrUpdate rg n u
    \<in> set (fst (networkInterfaceUpdate deps d resp writeErr waitErr))"
  then have w: "ClientCreateOrUpdate rg n u
    \<in> set (writes (fst (networkInterfaceUpdate deps d resp writeErr waitErr)))"
    by (rule write_in_writes)
  then obtain ident where ident: "parse_NetworkInterfaceID deps (nd_Id d) = Some ident"
    by (cases "parse_NetworkInterfaceID deps (nd_Id d)") (auto simp: update_writes writes_simps)
  with w have l: "ClientCreateOrUpdate rg n u
    \<in> set (writes (fst (networkInterfaceUpdateLocked deps d ident resp writeErr waitErr)))"
    by (simp add: update_writes)
  then obtain existingProps where ep: "IF_Properties (gr_iface resp) = Some existingProps"
    and ok: "\<not> gr_err resp"
    by (cases "IF_Properties (gr_iface resp)")
       (auto simp: update_locked_writes writes_simps split: if_splits)
  from l ep ok obtain dnsServers where dns: "updateDnsChoice d existingProps = Inr dnsServers"
    by (cases "updateDnsChoice d existingProps")
       (auto simp: update_locked_writes writes_simps)
  have dnsUnchanged: "\<exists>s. DNSSettings existingProps = Some s \<and> dnsServers = DNSServers s"
    if "\<not> HasChange d ''dns_servers''"
    using that dns by (auto simp: updateDnsChoice_def split: option.splits)
  from l ep ok dns have
    "\<exists>uProps. IF_Properties u = Some uProps \<and>
       NetworkSecurityGroup uProps = NetworkSecurityGroup existingProps \<and>
       DNSSettings uProps = Some \<lparr> DNSServers = dnsServers, AppliedDNSServers = None,
                                    InternalDomainNameSuffix = None \<rparr> \<and>
       (\<not> HasChange d ''enable_ip_forwarding'' \<longrightarrow>
          EnableIPForwarding uProps = EnableIPForwarding existingProps) \<and>
       (\<not> HasChange d ''ip_configuration'' \<longrightarrow>
          IPConfigurations uProps = IPConfigurations existingProps) \<and>
       (\<not> HasChange d ''tags'' \<longrightarrow> IF_Tags u = IF_Tags (gr_iface resp))"
    by (auto simp: update_locked_writes update_send_writes split: if_splits sum.splits
        option.splits)
  with ep dnsUnchanged show "\<exists>existingProps uProps.
          IF_Properties (gr_iface resp) = Some existingProps \<and>
          IF_Properties u = Some uProps \<and>
          NetworkSecurityGroup uProps = NetworkSecurityGroup existingProps \<and>
          (\<not> HasChange d ''dns_servers'' \<longrightarrow>
             (\<exists>s us. DNSSettings existingProps = Some s \<and> DNSSettings uProps = Some us \<and>
                DNSServers us = DNSServers s)) \<and>
          (\<not> HasChange d ''enable_ip_forwarding'' \<longrightarrow>
             EnableIPForwarding uProps = EnableIPForwarding existingProps) \<and>
          (\<not> HasChange d ''ip_configuration'' \<longrightarrow>
             IPConfigurations uProps = IPConfigurations existingProps) \<and>
          (\<not> HasChange d ''tags'' \<longrightarrow> IF_Tags u = IF_Tags (gr_iface resp))"
    by fastforce
next
  fix ident existingProps
  assume a: "parse_NetworkInterfaceID deps (nd_Id d) = Some ident \<and>
        \<not> gr_err resp \<and>
        IF_Properties (gr_iface resp) = Some existingProps \<and>
        (if HasChange d ''dns_servers''
         then \<exists>dns. expandNetworkInterfaceDnsServers (nd_dns_servers d) = Inr dns
         else DNSSettings existingProps \<noteq> None) \<and>
        (HasChange d ''ip_configuration'' \<longrightarrow>
           (\<exists>cs. expandNetworkInterfaceIPConfigurations (nd_ip_configuration d) = Inr cs \<and>
              determineResourcesToLockFromIPConfiguration deps (Some cs) \<noteq> None))"
  then obtain dnsServers where dns: "updateDnsChoice d existingProps = Inr dnsServers"
    by (auto simp: updateDnsChoice_def split: if_splits)
  from a dns show "\<exists>u. writes (fst (networkInterfaceUpdate deps d resp writeErr waitErr)) =
           [ClientCreateOrUpdate (NI_ResourceGroup ident) (NI_Name ident) u]"
    by (auto simp: update_writes update_locked_writes update_send_writes)
qed

lemma update_sends_values_read_example:
  "\<exists>u uProps us.
     writes (fst (networkInterfaceUpdate exampleDeps exampleUpdateData exampleGet False False)) =
       [ClientCreateOrUpdate ''rg'' ''nic1'' u] \<and>
     IF_Properties u = Some uProps \<and>
     NetworkSecurityGroup uProps = Some \<lparr> SR_ID = Some ''/nsg/1'' \<rparr> \<and>
     DNSSettings uProps = Some us \<and> DNSServers us = Some [''10.0.0.1''] \<and>
     IPConfigurations uProps = Some [exampleInternal, exampleSecond] \<and>
     IF_Tags u = Some [(''env'', ''test'')]"
proof -
  have hc: "\<not> HasChange exampleUpdateData ''dns_servers''"
      "\<not> HasChange exampleUpdateData ''ip_configuration''"
      "\<not> HasChange exampleUpdateData ''tags''"
    by (simp_all add: HasChange_def exampleUpdateData_def)
  have a: "parse_NetworkInterfaceID exampleDeps (nd_Id exampleUpdateData) = Some exampleNicId \<and>
        \<not> gr_err exampleGet \<and>
        IF_Properties (gr_iface exampleGet) = Some exampleProps \<and>
        (if HasChange exampleUpdateData ''dns_servers''
         then \<exists>dns. expandNetworkInterfaceDnsServers (nd_dns_servers exampleUpdateData) = Inr dns
         else DNSSettings exampleProps \<noteq> None) \<and>
        (HasChange exampleUpdateData ''ip_configuration'' \<longrightarrow>
           (\<exists>cs. expandNetworkInterfaceIPConfigurations (nd_ip_configuration exampleUpdateData)
                    = Inr cs \<and>
              determineResourcesToLockFromIPConfiguration exampleDeps (Some cs) \<noteq> None))"
    using hc
    by (simp add: exampleDeps_def exampleUpdateData_def exampleNicData_def exampleGet_def
        exampleInterface_def exampleProps_def)
  from update_sends_values_read [of exampleDeps exampleUpdateData exampleGet False False] a
  obtain u where u: "writes (fst (networkInterfaceUpdate exampleDeps exampleUpdateData exampleGet
        False False)) =
      [ClientCreateOrUpdate (NI_ResourceGroup exampleNicId) (NI_Name exampleNicId) u]"
    by blast
  then have "ClientCreateOrUpdate (NI_ResourceGroup exampleNicId) (NI_Name exampleNicId) u
      \<in> set (fst (networkInterfaceUpdate exampleDeps exampleUpdateData exampleGet False False))"
    by (metis list.set_intros(1) writes_def filter_is_subset subsetD)
  with update_sends_values_read [of exampleDeps exampleUpdateData exampleGet False False] hc
  obtain existingProps uProps s us where f:
      "IF_Properties (gr_iface exampleGet) = Some existingProps"
      "IF_Properties u = Some uProps"
      "NetworkSecurityGroup uProps = NetworkSecurityGroup existingProps"
      "DNSSettings existingProps = Some s" "DNSSettings uProps = Some us"
      "DNSServers us = DNSServers s"
      "IPConfigurations uProps = IPConfigurations existingProps"
      "IF_Tags u = IF_Tags (gr_iface exampleGet)"
    by blast
  from f(1) have ep: "existingProps = exampleProps"
    by (simp add: exampleGet_def exampleInterface_def)
  from f(4) ep have s: "DNSServers s = Some [''10.0.0.1'']"
    by (auto simp: exampleProps_def)
  from u f ep s show ?thesis
    by (intro exI [of _ u] exI [of _ uProps] exI [of _ us])
       (simp add: exampleNicId_def exampleProps_def exampleGet_def exampleInterface_def)
qed

text \<open>
  The read of the unchanged DNS servers goes through \<open>existing.DNSSettings\<close> with no
  test for \<open>nil\<close>: on an interface without DNS settings the handler panics under the
  lock, after the read and before it sends anything.
\<close>

lemma update_nil_dns_settings_panics:
  assumes "parse_NetworkInterfaceID deps (nd_Id d) = Some ident"
    and "\<not> gr_err resp"
    and "IF_Properties (gr_iface resp) = Some existingProps"
    and "DNSSettings existingProps = None"
    and "\<not> HasChange d ''dns_servers''"
  shows "networkInterfaceUpdate deps d resp writeErr waitErr =
     ([LockByName (NI_Name ident) (networkInterfaceResourceName deps),
       ClientGet (NI_ResourceGroup ident) (NI_Name ident),
       UnlockByName (NI_Name ident) (networkInterfaceResourceName deps)],
      d, Some Panic)"
  using assms
  by (simp add: networkInterfaceUpdate_def networkInterfaceUpdateLocked_def withLock_def
      updateDnsChoice_def Let_def)

text \<open>
  Claim C6 fails on the code. The plan changes \<open>enable_ip_forwarding\<close> only, so
  \<open>dns_servers\<close>, \<open>ip_configuration\<close> and \<open>tags\<close> are unchanged, and the interface read
  has a network security group and no DNS settings. The claim has the handler send the
  values read, the network security group among them. The handler panics on
  \<open>existing.DNSSettings.DNSServers\<close> and sends nothing. \<open>networkInterfaceRead\<close> tests
  the same field for \<open>nil\<close> and returns without an error on the same answer.
\<close>

theorem update_without_dns_settings_panics:
  "\<not> HasChange exampleUpdateData ''dns_servers''
   \<and> \<not> HasChange exampleUpdateData ''ip_configuration''
   \<and> \<not> HasChange exampleUpdateData ''tags''
   \<and> (\<exists>existingProps. IF_Properties (gr_iface exampleGetNoDns) = Some existingProps
        \<and> NetworkSecurityGroup existingProps = Some \<lparr> SR_ID = Some ''/nsg/1'' \<rparr>
        \<and> DNSSettings existingProps = None)
   \<and> networkInterfaceUpdate exampleDeps exampleUpdateData exampleGetNoDns False False =
     ([LockByName ''nic1'' ''azurestack_network_interface'',
       ClientGet ''rg'' ''nic1'',
       UnlockByName ''nic1'' ''azurestack_network_interface''],
      exampleUpdateData, Some Panic)
   \<and> snd (snd (networkInterfaceRead exampleDeps exampleUpdateData exampleGetNoDns)) = None"
  apply (intro conjI)
       apply (simp add: HasChange_def exampleUpdateData_def)
      apply (simp add: HasChange_def exampleUpdateData_def)
     apply (simp add: HasChange_def exampleUpdateData_def)
    apply (simp add: exampleGetNoDns_def exampleInterface_def exampleProps_def)
   apply (simp add: networkInterfaceUpdate_def networkInterfaceUpdateLocked_def withLock_def
      updateDnsChoice_def Let_def HasChange_def exampleDeps_def exampleUpdateData_def
      exampleNicData_def exampleGetNoDns_def exampleInterface_def exampleProps_def
      exampleNicId_def)
  apply (simp add: networkInterfaceRead_def Let_def exampleDeps_def exampleUpdateData_def
      exampleNicData_def exampleGetNoDns_def exampleInterface_def exampleProps_def exampleNicId_def
      flattenNetworkInterfaceIPConfigurations_def exampleInternal_def exampleSecond_def
      exampleInternalProps_def)
  done

section \<open>The lock around the remote calls\<close>


















section \<open>Two creates in sequence\<close>

lemma find_replaceNamed:
  assumes "find (\<lambda>v. IPC_Name v = Some name) cfgs = Some c"
    and "IPC_Name c' = Some name"
  shows "find (\<lambda>v. IPC_Name v = Some name) (replaceNamed c' cfgs) = Some c'"
  using assms(1) by (induction cfgs) (auto simp: assms(2) split: if_splits)

lemma association_create_locked_writes_inv:
  assumes "writes (fst (associationCreateUpdateLocked deps d ident resp writeErr waitErr readResp))
             = [ClientCreateOrUpdate rg n w]"
  shows "\<exists>props ipConfigs c p.
           IF_Properties (gr_iface resp) = Some props \<and>
           IPConfigurations props = Some ipConfigs \<and>
           FindNetworkInterfaceIPConfiguration (Some ipConfigs) (ad_ip_configuration_name d)
             = Some c \<and>
           IPC_Properties c = Some p"
  using assms
  by (auto simp: associationCreateUpdateLocked_def Let_def writes_simps
      split: option.splits if_splits)

lemma association_create_writes_inv:
  assumes "writes (fst (loadBalancerBackendAddressPoolAssociationCreateUpdate deps d resp
                          writeErr waitErr readResp)) = [ClientCreateOrUpdate rg n w]"
  shows "\<exists>props ipConfigs c p.
           IF_Properties (gr_iface resp) = Some props \<and>
           IPConfigurations props = Some ipConfigs \<and>
           FindNetworkInterfaceIPConfiguration (Some ipConfigs) (ad_ip_configuration_name d)
             = Some c \<and>
           IPC_Properties c = Some p \<and>
           \<not> list_ex (\<lambda>q. BAP_ID q = Some (ad_backend_address_pool_id d))
               (case LoadBalancerBackendAddressPools p of None \<Rightarrow> [] | Some qs \<Rightarrow> qs) \<and>
           w = (gr_iface resp)\<lparr>IF_Properties := Some (props\<lparr>IPConfigurations := Some
                 (replaceNamed
                    (c\<lparr>IPC_Properties := Some (p\<lparr>LoadBalancerBackendAddressPools := Some
                       (filter (\<lambda>q. BAP_ID q \<noteq> None \<and>
                                  BAP_ID q \<noteq> Some (ad_backend_address_pool_id d))
                          (case LoadBalancerBackendAddressPools p of
                             None \<Rightarrow> [] | Some qs \<Rightarrow> qs)
                        @ [\<lparr> BAP_ID = Some (ad_backend_address_pool_id d), BAP_Name = None,
                             BAP_Etag = None \<rparr>])\<rparr>)\<rparr>)
                    ipConfigs)\<rparr>)\<rparr>"
proof -
  from assms obtain ident where
    l: "writes (fst (associationCreateUpdateLocked deps d ident resp writeErr waitErr readResp))
             = [ClientCreateOrUpdate rg n w]"
    by (cases "parse_NetworkInterfaceID deps (ad_network_interface_id d)")
       (auto simp: association_create_writes)
  from association_create_locked_writes_inv [OF l] obtain props ipConfigs c p where
    f: "IF_Properties (gr_iface resp) = Some props" "IPConfigurations props = Some ipConfigs"
       "FindNetworkInterfaceIPConfiguration (Some ipConfigs) (ad_ip_configuration_name d) = Some c"
       "IPC_Properties c = Some p"
    by blast
  from l association_create_locked_writes [OF f, of deps ident writeErr waitErr readResp]
  have "\<not> list_ex (\<lambda>q. BAP_ID q = Some (ad_backend_address_pool_id d))
               (case LoadBalancerBackendAddressPools p of None \<Rightarrow> [] | Some qs \<Rightarrow> qs) \<and>
           w = (gr_iface resp)\<lparr>IF_Properties := Some (props\<lparr>IPConfigurations := Some
                 (replaceNamed
                    (c\<lparr>IPC_Properties := Some (p\<lparr>LoadBalancerBackendAddressPools := Some
                       (filter (\<lambda>q. BAP_ID q \<noteq> None \<and>
                                  BAP_ID q \<noteq> Some (ad_backend_address_pool_id d))
                          (case LoadBalancerBackendAddressPools p of
                             None \<Rightarrow> [] | Some qs \<Rightarrow> qs)
                        @ [\<lparr> BAP_ID = Some (ad_backend_address_pool_id d), BAP_Name = None,
                             BAP_Etag = None \<rparr>])\<rparr>)\<rparr>)
                    ipConfigs)\<rparr>)\<rparr>"
    by (auto split: if_splits)
  with f show ?thesis by blast
qed

text \<open>
  One create after another, the second reading what the first wrote: the pool list of
  the named configuration then holds both pools.
\<close>

lemma creates_in_sequence_keep_both_pools:
  assumes first: "writes (fst (loadBalancerBackendAddressPoolAssociationCreateUpdate deps dA resp
                      writeErr waitErr readResp)) = [ClientCreateOrUpdate rg n w1]"
    and second: "writes (fst (loadBalancerBackendAddressPoolAssociationCreateUpdate deps dB
                      \<lparr> gr_err = False, gr_notFound = False, gr_iface = w1 \<rparr>
                      writeErr' waitErr' readResp')) = [ClientCreateOrUpdate rg' n' w2]"
    and same: "ad_ip_configuration_name dB = ad_ip_configuration_name dA"
  shows "\<exists>props cfgs c p pools.
           IF_Properties w2 = Some props \<and>
           IPConfigurations props = Some cfgs \<and>
           FindNetworkInterfaceIPConfiguration (Some cfgs) (ad_ip_configuration_name dA) = Some c \<and>
           IPC_Properties c = Some p \<and>
           LoadBalancerBackendAddressPools p = Some pools \<and>
           list_ex (\<lambda>q. BAP_ID q = Some (ad_backend_address_pool_id dA)) pools \<and>
           list_ex (\<lambda>q. BAP_ID q = Some (ad_backend_address_pool_id dB)) pools"
proof -
  let ?name = "ad_ip_configuration_name dA"
  define poolsB where "poolsB (p2 :: InterfaceIPConfigurationPropertiesFormat) =
     filter (\<lambda>q. BAP_ID q \<noteq> None \<and> BAP_ID q \<noteq> Some (ad_backend_address_pool_id dB))
        (case LoadBalancerBackendAddressPools p2 of None \<Rightarrow> [] | Some qs \<Rightarrow> qs)
      @ [\<lparr> BAP_ID = Some (ad_backend_address_pool_id dB), BAP_Name = None, BAP_Etag = None \<rparr>]"
    for p2
  define poolsA where "poolsA (p1 :: InterfaceIPConfigurationPropertiesFormat) =
     filter (\<lambda>q. BAP_ID q \<noteq> None \<and> BAP_ID q \<noteq> Some (ad_backend_address_pool_id dA))
        (case LoadBalancerBackendAddressPools p1 of None \<Rightarrow> [] | Some qs \<Rightarrow> qs)
      @ [\<lparr> BAP_ID = Some (ad_backend_address_pool_id dA), BAP_Name = None, BAP_Etag = None \<rparr>]"
    for p1
  from association_create_writes_inv [OF second] same obtain props2 cfgs2 c2 p2 where
    s: "IF_Properties w1 = Some props2" "IPConfigurations props2 = Some cfgs2"
       "FindNetworkInterfaceIPConfiguration (Some cfgs2) ?name = Some c2"
       "IPC_Properties c2 = Some p2"
       "\<not> list_ex (\<lambda>q. BAP_ID q = Some (ad_backend_address_pool_id dB))
               (case LoadBalancerBackendAddressPools p2 of None \<Rightarrow> [] | Some qs \<Rightarrow> qs)"
    and w2: "w2 = w1\<lparr>IF_Properties := Some (props2\<lparr>IPConfigurations := Some
                 (replaceNamed
                    (c2\<lparr>IPC_Properties := Some (p2\<lparr>LoadBalancerBackendAddressPools :=
                       Some (poolsB p2)\<rparr>)\<rparr>) cfgs2)\<rparr>)\<rparr>"
    unfolding poolsB_def by auto
  from association_create_writes_inv [OF first] obtain props1 cfgs1 c1 p1 where
    f: "FindNetworkInterfaceIPConfiguration (Some cfgs1) ?name = Some c1"
       "IPC_Properties c1 = Some p1"
    and w1: "w1 = (gr_iface resp)\<lparr>IF_Properties := Some (props1\<lparr>IPConfigurations := Some
                 (replaceNamed
                    (c1\<lparr>IPC_Properties := Some (p1\<lparr>LoadBalancerBackendAddressPools :=
                       Some (poolsA p1)\<rparr>)\<rparr>) cfgs1)\<rparr>)\<rparr>"
    unfolding poolsA_def by auto
  define c1' where "c1' = c1\<lparr>IPC_Properties := Some (p1\<lparr>LoadBalancerBackendAddressPools :=
                       Some (poolsA p1)\<rparr>)\<rparr>"
  define c2' where "c2' = c2\<lparr>IPC_Properties := Some (p2\<lparr>LoadBalancerBackendAddressPools :=
                       Some (poolsB p2)\<rparr>)\<rparr>"
  from f(1) have f1: "find (\<lambda>v. IPC_Name v = Some ?name) cfgs1 = Some c1"
    by (simp add: FindNetworkInterfaceIPConfiguration_def)
  then have c1name: "IPC_Name c1 = Some ?name"
    by (auto simp: find_Some_iff)
  have c1'name: "IPC_Name c1' = Some ?name"
    by (simp add: c1'_def c1name)
  from w1 s(1,2) have cfgs2: "cfgs2 = replaceNamed c1' cfgs1"
    by (auto simp: c1'_def)
  from s(3) have f2: "find (\<lambda>v. IPC_Name v = Some ?name) cfgs2 = Some c2"
    by (simp add: FindNetworkInterfaceIPConfiguration_def)
  with find_replaceNamed [OF f1 c1'name] have c2: "c2 = c1'"
    by (simp add: cfgs2)
  with s(4) have p2: "LoadBalancerBackendAddressPools p2 = Some (poolsA p1)"
    by (auto simp: c1'_def)
  from s(5) p2 have neq: "ad_backend_address_pool_id dA \<noteq> ad_backend_address_pool_id dB"
    by (auto simp: poolsA_def)
  have c2'name: "IPC_Name c2' = Some ?name"
    by (simp add: c2'_def c2 c1'name)
  have found2: "FindNetworkInterfaceIPConfiguration (Some (replaceNamed c2' cfgs2)) ?name = Some c2'"
    using find_replaceNamed [OF f2 c2'name]
    by (simp add: FindNetworkInterfaceIPConfiguration_def)
  have pools: "list_ex (\<lambda>q. BAP_ID q = Some (ad_backend_address_pool_id dA)) (poolsB p2)"
     "list_ex (\<lambda>q. BAP_ID q = Some (ad_backend_address_pool_id dB)) (poolsB p2)"
    using neq by (simp_all add: poolsB_def poolsA_def p2 list_ex_iff)
  show ?thesis
    using found2 pools
    by (intro exI [of _ "props2\<lparr>IPConfigurations := Some (replaceNamed c2' cfgs2)\<rparr>"]
          exI [of _ "replaceNamed c2' cfgs2"]
          exI [of _ c2']
          exI [of _ "p2\<lparr>LoadBalancerBackendAddressPools := Some (poolsB p2)\<rparr>"]
          exI [of _ "poolsB p2"])
       (simp add: w2 c2'_def)
qed

end
